theory Spec2Isabelle
  imports Main "HOL-Library.Word" "HOL-Library.Sublist" "HOL-Library.AList"
begin

section \<open>JavaScript values\<close>

text \<open>
  A JavaScript string is a sequence of UTF-16 code units; \<open>===\<close> on strings, the keys of a
  \<open>Map\<close> and a regular expression without the \<open>u\<close> flag all work on code units.
  \<open>js\<close> writes an ASCII literal of the source.
\<close>

type_synonym utf16 = "16 word"
type_synonym js_string = "utf16 list"

definition js :: "string \<Rightarrow> js_string" where
  "js s = map (\<lambda>c. of_nat (of_char c)) s"

text \<open>
  A thrown value: an \<open>Error\<close> object with its \<open>name\<close>, its \<open>message\<close> and, for the errors of
  Node's \<open>fs\<close>, the errno \<open>code\<close> (\<open>undefined\<close> is \<open>None\<close>).
\<close>

datatype error = Thrown (name: js_string) (message: js_string) (code: "js_string option")

definition new_Error :: "js_string \<Rightarrow> error" where
  \<comment> \<open>\<open>new Error(msg)\<close>\<close>
  "new_Error msg = Thrown (js ''Error'') msg None"

definition toString :: "error \<Rightarrow> js_string" where
  \<comment> \<open>\<open>`${error}`\<close>, that is \<open>Error.prototype.toString\<close>\<close>
  "toString e =
     (if name e = [] then message e
      else if message e = [] then name e
      else name e @ js '': '' @ message e)"

section \<open>types.ts\<close>

text \<open>
  The interface \<open>Annotation\<close>. The fields \<open>id\<close> and \<open>text\<close> are \<open>id'\<close> and \<open>text'\<close> here.
  The \<open>number\<close> fields only ever hold integers in this program (a line, a column,
  \<open>Date.now()\<close>) and are never computed with.
\<close>

record Annotation =
  id' :: js_string
  filePath :: js_string
  line :: int
  column :: int
  text' :: js_string
  author :: js_string
  timestamp :: int
  projectPath :: js_string

text \<open>The interface \<open>AnnotationData\<close>; its field \<open>annotations\<close> is \<open>annotations'\<close> here.\<close>

record AnnotationData =
  annotations' :: "Annotation list"
  version :: js_string

section \<open>The libraries the program calls\<close>

text \<open>
  \<open>StatusResult\<close> of simple-git: the lists of paths that \<open>git.status()\<close> reports.
\<close>

record StatusResult =
  not_added :: "js_string list"
  conflicted :: "js_string list"
  created :: "js_string list"
  deleted :: "js_string list"
  modified :: "js_string list"
  staged :: "js_string list"

text \<open>
  The program runs against Node's \<open>path\<close>, \<open>crypto\<close>, \<open>JSON\<close>, \<open>Date\<close> and \<open>fs/promises\<close> and against
  simple-git. None of them is part of the repository, so they are a parameter \<open>E\<close> of every
  function below, and every theorem holds for whatever they do. The type \<open>'w\<close> is the state
  of everything outside the process (the disk, the repository, its remotes, the clock); an
  effectful call maps it to its result, \<open>Inl\<close> a rejection, and to the state it leaves behind.

  \<open>JSON_parse\<close> answers for the rest of the \<open>try\<close> block of \<open>loadAnnotations\<close> once the file
  is read: \<open>Inr data\<close> when the content parses to a document of type \<open>AnnotationData\<close>, as the
  source's type annotation has it, \<open>Inl m\<close> when an exception with message \<open>m\<close> is thrown
  there; such an exception is no errno error and has no \<open>code\<close>.
\<close>

record 'w env =
  path_normalize :: "js_string \<Rightarrow> js_string"
  path_basename :: "js_string \<Rightarrow> js_string"
  path_dirname :: "js_string \<Rightarrow> js_string"
  path_join :: "js_string \<Rightarrow> js_string \<Rightarrow> js_string"
  sha256_hex :: "js_string \<Rightarrow> js_string"
  JSON_parse :: "js_string \<Rightarrow> js_string + AnnotationData"
  JSON_stringify :: "AnnotationData \<Rightarrow> js_string"
  Date_now :: "'w \<Rightarrow> int"
  fs_readFile :: "js_string \<Rightarrow> 'w \<Rightarrow> (error + js_string) \<times> 'w"
  fs_mkdir :: "js_string \<Rightarrow> 'w \<Rightarrow> (error + unit) \<times> 'w"
  fs_writeFile :: "js_string \<Rightarrow> js_string \<Rightarrow> 'w \<Rightarrow> (error + unit) \<times> 'w"
  git_add :: "'w \<Rightarrow> (error + unit) \<times> 'w"
  git_status :: "'w \<Rightarrow> (error + StatusResult) \<times> 'w"
  git_commit :: "js_string \<Rightarrow> 'w \<Rightarrow> (error + unit) \<times> 'w"
  git_getRemotes :: "'w \<Rightarrow> (error + js_string list) \<times> 'w"
  git_push :: "'w \<Rightarrow> (error + unit) \<times> 'w"
  git_pull :: "'w \<Rightarrow> (error + unit) \<times> 'w"

text \<open>The calls the program makes to the outside, in the order it makes them.\<close>

datatype event =
    ReadFile js_string
  | Mkdir js_string
  | WriteFile js_string js_string
  | GitAdd
  | GitStatus
  | GitCommit js_string
  | GitGetRemotes
  | GitPush
  | GitPull
  | ShowWarningMessage js_string

section \<open>The state of the process\<close>

text \<open>
  The two objects of the program and what surrounds them: the private field
  \<open>annotations\<close> of \<open>AnnotationStorage\<close> (a \<open>Map\<close> from project path to array), the fields
  \<open>git\<close> (here: whether it is non-null) and \<open>repoPath\<close> of \<open>GitService\<close>, the outside world, and
  the trace of calls made so far. Arrays and annotation objects are modelled by value: an
  array holds its annotations, not references to them. That is what the program computes
  as long as no annotation object stands at two places of the map, and it puts none there
  itself: \<open>JSON.parse\<close> makes new objects, and \<open>addAnnotation\<close> is handed an object made for
  the call.

  The operations are \<open>async\<close> and are modelled as run one after the other, each to its end,
  as the callers \<open>await\<close> them.
\<close>

record 'w runtime =
  annotations :: "js_string \<rightharpoonup> Annotation list"
  git :: bool
  repoPath :: "js_string option"
  world :: 'w
  trace :: "event list"

definition perform :: "event \<Rightarrow> ('w \<Rightarrow> (error + 'a) \<times> 'w) \<Rightarrow> 'w runtime \<Rightarrow> (error + 'a) \<times> 'w runtime" where
  \<comment> \<open>an awaited call: the outside world answers and moves on, the trace grows\<close>
  "perform ev f s =
     (case f (world s) of (r, w) \<Rightarrow> (r, s\<lparr>world := w, trace := trace s @ [ev]\<rparr>))"

definition showWarningMessage :: "js_string \<Rightarrow> 'w runtime \<Rightarrow> 'w runtime" where
  \<comment> \<open>\<open>vscode.window.showWarningMessage(msg)\<close>, not awaited\<close>
  "showWarningMessage msg s = s\<lparr>trace := trace s @ [ShowWarningMessage msg]\<rparr>"

section \<open>gitService.ts\<close>

definition getRepoPath :: "'w runtime \<Rightarrow> js_string option" where
  "getRepoPath s = repoPath s"

definition nothing_to_commit :: "StatusResult \<Rightarrow> bool" where
  \<comment> \<open>\<open>status.staged.length === 0 && status.modified.length === 0 && status.created.length === 0\<close>\<close>
  "nothing_to_commit st =
     (length (staged st) = 0 \<and> length (modified st) = 0 \<and> length (created st) = 0)"

definition commitAndPush_try :: "'w env \<Rightarrow> js_string \<Rightarrow> 'w runtime \<Rightarrow> (error + unit) \<times> 'w runtime" where
  \<comment> \<open>the \<open>try\<close> block of \<open>commitAndPush\<close>\<close>
  "commitAndPush_try E msg s =
     (case perform GitAdd (git_add E) s of
        (Inl e, s1) \<Rightarrow> (Inl e, s1)
      | (Inr _, s1) \<Rightarrow>
          (case perform GitStatus (git_status E) s1 of
             (Inl e, s2) \<Rightarrow> (Inl e, s2)
           | (Inr st, s2) \<Rightarrow>
               if nothing_to_commit st then (Inr (), s2)
               else
                 (case perform (GitCommit msg) (git_commit E msg) s2 of
                    (Inl e, s3) \<Rightarrow> (Inl e, s3)
                  | (Inr _, s3) \<Rightarrow>
                      (case perform GitGetRemotes (git_getRemotes E) s3 of
                         (Inl e, s4) \<Rightarrow> (Inl e, s4)
                       | (Inr remotes, s4) \<Rightarrow>
                           if length remotes > 0 then perform GitPush (git_push E) s4
                           else (Inr (), s4)))))"

definition commitAndPush :: "'w env \<Rightarrow> js_string \<Rightarrow> 'w runtime \<Rightarrow> (error + unit) \<times> 'w runtime" where
  "commitAndPush E msg s =
     (if \<not> git s then (Inl (new_Error (js ''Git not initialized'')), s)
      else
        (case commitAndPush_try E msg s of
           (Inl e, s1) \<Rightarrow> (Inl (new_Error (js ''Git operation failed: '' @ toString e)), s1)
         | (Inr u, s1) \<Rightarrow> (Inr u, s1)))"

definition pull_try :: "'w env \<Rightarrow> 'w runtime \<Rightarrow> (error + unit) \<times> 'w runtime" where
  \<comment> \<open>the \<open>try\<close> block of \<open>pull\<close>\<close>
  "pull_try E s =
     (case perform GitGetRemotes (git_getRemotes E) s of
        (Inl e, s1) \<Rightarrow> (Inl e, s1)
      | (Inr remotes, s1) \<Rightarrow>
          if length remotes > 0 then perform GitPull (git_pull E) s1
          else (Inr (), s1))"

definition pull :: "'w env \<Rightarrow> 'w runtime \<Rightarrow> (error + unit) \<times> 'w runtime" where
  "pull E s =
     (if \<not> git s then (Inl (new_Error (js ''Git not initialized'')), s)
      else
        (case pull_try E s of
           (Inl e, s1) \<Rightarrow> (Inl (new_Error (js ''Git pull failed: '' @ toString e)), s1)
         | (Inr u, s1) \<Rightarrow> (Inr u, s1)))"

section \<open>annotationStorage.ts\<close>

subsection \<open>The path hasher\<close>

definition word_char :: "utf16 \<Rightarrow> bool" where
  \<comment> \<open>the code units of the character class \<open>[a-zA-Z0-9-_]\<close>\<close>
  "word_char c =
     ((0x61 \<le> c \<and> c \<le> 0x7A) \<or> (0x41 \<le> c \<and> c \<le> 0x5A) \<or> (0x30 \<le> c \<and> c \<le> 0x39)
      \<or> c = 0x2D \<or> c = 0x5F)"

definition replace_non_word :: "js_string \<Rightarrow> js_string" where
  \<comment> \<open>\<open>.replace(/[^a-zA-Z0-9-_]/g, '_')\<close>\<close>
  "replace_non_word s = map (\<lambda>c. if word_char c then c else 0x5F) s"

definition hashProjectPath :: "'w env \<Rightarrow> js_string \<Rightarrow> js_string" where
  "hashProjectPath E project =
     (let normalized = path_normalize E project;
          hash = take 16 (sha256_hex E normalized);
          projectName = replace_non_word (path_basename E normalized)
      in projectName @ js ''_'' @ hash)"

definition getAnnotationFilePath :: "'w env \<Rightarrow> js_string \<Rightarrow> js_string \<Rightarrow> js_string" where
  "getAnnotationFilePath E project repo =
     (let projectHash = hashProjectPath E project;
          projectDir = path_join E repo projectHash
      in path_join E projectDir (js ''annotations.json''))"

subsection \<open>Reading the collections\<close>

definition getAllAnnotations :: "js_string \<Rightarrow> 'w runtime \<Rightarrow> Annotation list" where
  \<comment> \<open>\<open>this.annotations.get(projectPath) || []\<close>; an array, also an empty one, is truthy\<close>
  "getAllAnnotations project s =
     (case annotations s project of None \<Rightarrow> [] | Some projectAnnotations \<Rightarrow> projectAnnotations)"

definition getAnnotationsForFile :: "js_string \<Rightarrow> js_string \<Rightarrow> 'w runtime \<Rightarrow> Annotation list" where
  "getAnnotationsForFile file project s =
     (let projectAnnotations = getAllAnnotations project s
      in filter (\<lambda>a. filePath a = file) projectAnnotations)"

definition getAnnotationById :: "js_string \<Rightarrow> js_string \<Rightarrow> 'w runtime \<Rightarrow> Annotation option" where
  "getAnnotationById ident project s =
     (let projectAnnotations = getAllAnnotations project s
      in find (\<lambda>a. id' a = ident) projectAnnotations)"

subsection \<open>Loading and saving\<close>

definition loadAnnotations_catch :: "js_string \<Rightarrow> error \<Rightarrow> 'w runtime \<Rightarrow> (error + unit) \<times> 'w runtime" where
  \<comment> \<open>the \<open>catch\<close> block of \<open>loadAnnotations\<close>\<close>
  "loadAnnotations_catch project e s =
     (let s1 = (if code e \<noteq> Some (js ''ENOENT'')
                then showWarningMessage (js ''Failed to load annotations: '' @ message e) s
                else s)
      in (Inr (), s1\<lparr>annotations := (annotations s1)(project \<mapsto> [])\<rparr>))"

definition loadAnnotations :: "'w env \<Rightarrow> js_string \<Rightarrow> 'w runtime \<Rightarrow> (error + unit) \<times> 'w runtime" where
  \<comment> \<open>\<open>!repoPath\<close> holds of \<open>null\<close> and of the empty string\<close>
  "loadAnnotations E project s =
     (case getRepoPath s of
        None \<Rightarrow> (Inr (), s)
      | Some repo \<Rightarrow>
          if repo = [] then (Inr (), s)
          else
            (let annotationFile = getAnnotationFilePath E project repo
             in case perform (ReadFile annotationFile) (fs_readFile E annotationFile) s of
                  (Inl e, s1) \<Rightarrow> loadAnnotations_catch project e s1
                | (Inr content, s1) \<Rightarrow>
                    (case JSON_parse E content of
                       Inl m \<Rightarrow> loadAnnotations_catch project (Thrown (js ''SyntaxError'') m None) s1
                     | Inr data \<Rightarrow>
                         (Inr (), s1\<lparr>annotations := (annotations s1)(project \<mapsto> annotations' data)\<rparr>))))"

definition saveAnnotations :: "'w env \<Rightarrow> js_string \<Rightarrow> 'w runtime \<Rightarrow> (error + unit) \<times> 'w runtime" where
  "saveAnnotations E project s =
     (case getRepoPath s of
        None \<Rightarrow> (Inl (new_Error (js ''Annotation repository not configured'')), s)
      | Some repo \<Rightarrow>
          if repo = [] then (Inl (new_Error (js ''Annotation repository not configured'')), s)
          else
            (let annotationFile = getAnnotationFilePath E project repo;
                 data = \<lparr>annotations' = getAllAnnotations project s, version = js ''1.0''\<rparr>;
                 dir = path_dirname E annotationFile
             in case perform (Mkdir dir) (fs_mkdir E dir) s of
                  (Inl e, s1) \<Rightarrow> (Inl e, s1)
                | (Inr _, s1) \<Rightarrow>
                    perform (WriteFile annotationFile (JSON_stringify E data))
                      (fs_writeFile E annotationFile (JSON_stringify E data)) s1))"

subsection \<open>Mutations\<close>

definition addAnnotation :: "'w env \<Rightarrow> Annotation \<Rightarrow> 'w runtime \<Rightarrow> (error + unit) \<times> 'w runtime" where
  "addAnnotation E annotation s =
     (let projectAnnotations = getAllAnnotations (projectPath annotation) s;
          s1 = s\<lparr>annotations :=
                 (annotations s)(projectPath annotation \<mapsto> projectAnnotations @ [annotation])\<rparr>
      in saveAnnotations E (projectPath annotation) s1)"

definition removeAnnotation :: "'w env \<Rightarrow> js_string \<Rightarrow> js_string \<Rightarrow> 'w runtime \<Rightarrow> (error + unit) \<times> 'w runtime" where
  "removeAnnotation E ident project s =
     (let projectAnnotations = getAllAnnotations project s;
          filtered = filter (\<lambda>a. id' a \<noteq> ident) projectAnnotations;
          s1 = s\<lparr>annotations := (annotations s)(project \<mapsto> filtered)\<rparr>
      in saveAnnotations E project s1)"

text \<open>
  \<open>find\<close> returns the first element of the array that has the identifier, and the two
  assignments of \<open>updateAnnotation\<close> change that element where it stands in the array.
\<close>

primrec assign_found :: "('a \<Rightarrow> bool) \<Rightarrow> ('a \<Rightarrow> 'a) \<Rightarrow> 'a list \<Rightarrow> 'a list" where
  "assign_found P f [] = []"
| "assign_found P f (x # xs) = (if P x then f x # xs else x # assign_found P f xs)"

definition updateAnnotation :: "'w env \<Rightarrow> js_string \<Rightarrow> js_string \<Rightarrow> js_string \<Rightarrow> 'w runtime \<Rightarrow> (error + unit) \<times> 'w runtime" where
  "updateAnnotation E ident project newText s =
     (let projectAnnotations = getAllAnnotations project s
      in case find (\<lambda>a. id' a = ident) projectAnnotations of
           None \<Rightarrow> (Inr (), s)
         | Some annotation \<Rightarrow>
             (let now = Date_now E (world s);
                  s1 = s\<lparr>annotations := (annotations s)(project \<mapsto>
                         assign_found (\<lambda>a. id' a = ident)
                           (\<lambda>a. a\<lparr>text' := newText, timestamp := now\<rparr>) projectAnnotations)\<rparr>
              in saveAnnotations E project s1))"

subsection \<open>Synchronisation\<close>

definition sync :: "'w env \<Rightarrow> js_string \<Rightarrow> 'w runtime \<Rightarrow> (error + unit) \<times> 'w runtime" where
  "sync E project s =
     (case pull E s of
        (Inl e, s1) \<Rightarrow> (Inl e, s1)
      | (Inr _, s1) \<Rightarrow> loadAnnotations E project s1)"

definition commitChanges :: "'w env \<Rightarrow> js_string \<Rightarrow> js_string \<Rightarrow> 'w runtime \<Rightarrow> (error + unit) \<times> 'w runtime" where
  "commitChanges E project msg s =
     (case saveAnnotations E project s of
        (Inl e, s1) \<Rightarrow> (Inl e, s1)
      | (Inr _, s1) \<Rightarrow> commitAndPush E msg s1)"

section \<open>The path hasher as the specification words it\<close>

text \<open>
  The specification's composition of the storage location, for comparison with
  \<open>getAnnotationFilePath\<close>: the basename with every character that is not a letter or a
  digit replaced by an underscore, an underscore, and the first 16 characters of the digest
  of the normalized path.
\<close>

definition alphanumeric :: "utf16 \<Rightarrow> bool" where
  "alphanumeric c =
     ((0x61 \<le> c \<and> c \<le> 0x7A) \<or> (0x41 \<le> c \<and> c \<le> 0x5A) \<or> (0x30 \<le> c \<and> c \<le> 0x39))"

definition spec_locationFor :: "'w env \<Rightarrow> js_string \<Rightarrow> js_string \<Rightarrow> js_string" where
  "spec_locationFor E project repo =
     path_join E
       (path_join E repo
          (map (\<lambda>c. if alphanumeric c then c else 0x5F) (path_basename E (path_normalize E project))
           @ js ''_'' @ take 16 (sha256_hex E (path_normalize E project))))
       (js ''annotations.json'')"

section \<open>Counting commits\<close>

primrec commits :: "event list \<Rightarrow> nat" where
  "commits [] = 0"
| "commits (ev # evs) = (case ev of GitCommit _ \<Rightarrow> Suc (commits evs) | _ \<Rightarrow> commits evs)"

section \<open>What the program relies on in git and the file system\<close>

text \<open>
  For two commits in a row the program relies on how git and the file system behave.
  That behaviour is not code of the repository; it is stated here as laws of the library
  parameter \<open>E\<close>, each about one call, in terms of what \<open>E\<close> itself answers:
  a file \<open>has_content\<close> when reading it gives that content, and the outside world is \<open>quiet\<close>
  when staging everything and asking for the status reports nothing to commit.
  The laws: a file that was written reads back as written; no git call and no \<open>mkdir\<close>
  changes what a file reads as; \<open>mkdir\<close>, \<open>getRemotes\<close> and \<open>push\<close> keep a quiet world quiet;
  so does writing to a file the content it has; a status that reports nothing leaves the
  world quiet; and a commit made after staging leaves it quiet.
\<close>

definition has_content :: "'w env \<Rightarrow> js_string \<Rightarrow> js_string \<Rightarrow> 'w \<Rightarrow> bool" where
  "has_content E path content w = (fst (fs_readFile E path w) = Inr content)"

definition quiet :: "'w env \<Rightarrow> 'w \<Rightarrow> bool" where
  "quiet E w =
     (\<forall>w1 st w2. git_add E w = (Inr (), w1) \<longrightarrow> git_status E w1 = (Inr st, w2)
        \<longrightarrow> nothing_to_commit st)"

definition git_fs_laws :: "'w env \<Rightarrow> bool" where
  "git_fs_laws E =
     ((\<forall>path content w w'.
         fs_writeFile E path content w = (Inr (), w') \<longrightarrow> has_content E path content w')
      \<and> (\<forall>path content w dir msg.
            has_content E path content w \<longrightarrow>
              has_content E path content (snd (fs_mkdir E dir w))
              \<and> has_content E path content (snd (git_add E w))
              \<and> has_content E path content (snd (git_status E w))
              \<and> has_content E path content (snd (git_commit E msg w))
              \<and> has_content E path content (snd (git_getRemotes E w))
              \<and> has_content E path content (snd (git_push E w)))
      \<and> (\<forall>w dir.
            quiet E w \<longrightarrow>
              quiet E (snd (fs_mkdir E dir w))
              \<and> quiet E (snd (git_getRemotes E w))
              \<and> quiet E (snd (git_push E w)))
      \<and> (\<forall>path content w w'.
            quiet E w \<and> has_content E path content w
            \<and> fs_writeFile E path content w = (Inr (), w') \<longrightarrow> quiet E w')
      \<and> (\<forall>w w1 st w2.
            git_add E w = (Inr (), w1) \<and> git_status E w1 = (Inr st, w2) \<and> nothing_to_commit st
            \<longrightarrow> quiet E w2)
      \<and> (\<forall>w w1 st w2 msg w3.
            git_add E w = (Inr (), w1) \<and> git_status E w1 = (Inr st, w2)
            \<and> git_commit E msg w2 = (Inr (), w3) \<longrightarrow> quiet E w3))"

section \<open>A reference environment\<close>

text \<open>
  A small executable environment on which the theorems are instantiated: path functions
  after Node's \<open>path.posix\<close>, a disk that is an association list from path to content, a
  repository with the tree of its last commit and its index, and a clock. A path listed as
  unreadable is denied to readers and to writers alike (\<open>EACCES\<close>). Its digest and
  its JSON codec are stand-ins (a constant digest of the right length; a codec that writes
  the identifiers and texts and reads the empty document only): the theorems do not depend
  on what these compute.
\<close>

fun segments :: "js_string \<Rightarrow> js_string list" where
  "segments [] = [[]]"
| "segments (c # cs) =
     (if c = 0x2F then [] # segments cs
      else (case segments cs of [] \<Rightarrow> [[c]] | seg # segs \<Rightarrow> (c # seg) # segs))"

fun resolve :: "bool \<Rightarrow> js_string list \<Rightarrow> js_string list \<Rightarrow> js_string list" where
  "resolve isAbsolute acc [] = rev acc"
| "resolve isAbsolute acc (seg # segs) =
     (if seg = [] \<or> seg = js ''.'' then resolve isAbsolute acc segs
      else if seg = js ''..'' then
        (case acc of
           [] \<Rightarrow> if isAbsolute then resolve isAbsolute [] segs else resolve isAbsolute [seg] segs
         | prev # rest \<Rightarrow>
             if prev = js ''..'' then resolve isAbsolute (seg # acc) segs
             else resolve isAbsolute rest segs)
      else resolve isAbsolute (seg # acc) segs)"

fun join_segments :: "js_string list \<Rightarrow> js_string" where
  "join_segments [] = []"
| "join_segments [seg] = seg"
| "join_segments (seg # next # segs) = seg @ [0x2F] @ join_segments (next # segs)"

definition posix_normalize :: "js_string \<Rightarrow> js_string" where
  "posix_normalize path =
     (if path = [] then js ''.''
      else
        (let isAbsolute = (hd path = 0x2F);
             trailingSeparator = (last path = 0x2F);
             body = join_segments (resolve isAbsolute [] (segments path))
         in if body = [] then (if isAbsolute then js ''/'' else if trailingSeparator then js ''./'' else js ''.'')
            else (if isAbsolute then [0x2F] else []) @ body @ (if trailingSeparator then [0x2F] else [])))"

definition posix_basename :: "js_string \<Rightarrow> js_string" where
  "posix_basename path =
     (case filter (\<lambda>seg. seg \<noteq> []) (segments path) of [] \<Rightarrow> [] | seg # segs \<Rightarrow> last (seg # segs))"

definition posix_dirname :: "js_string \<Rightarrow> js_string" where
  "posix_dirname path =
     (let withoutLast = dropWhile (\<lambda>c. c \<noteq> 0x2F) (dropWhile (\<lambda>c. c = 0x2F) (rev path))
      in if dropWhile (\<lambda>c. c = 0x2F) withoutLast = []
         then (if path \<noteq> [] \<and> hd path = 0x2F then js ''/'' else js ''.'')
         else rev (tl withoutLast))"

definition posix_join :: "js_string \<Rightarrow> js_string \<Rightarrow> js_string" where
  "posix_join a b =
     (if a = [] \<and> b = [] then js ''.''
      else if a = [] then posix_normalize b
      else if b = [] then posix_normalize a
      else posix_normalize (a @ [0x2F] @ b))"

record sim_world =
  files :: "(js_string \<times> js_string) list"
  unreadable :: "js_string list"
  head_tree :: "(js_string \<times> js_string) list"
  index_tree :: "(js_string \<times> js_string) list"
  remotes :: "js_string list"
  online :: bool
  clock :: int

definition sim_readFile :: "js_string \<Rightarrow> sim_world \<Rightarrow> (error + js_string) \<times> sim_world" where
  "sim_readFile path w =
     (if path \<in> set (unreadable w)
      then (Inl (Thrown (js ''Error'') (js ''EACCES: permission denied'') (Some (js ''EACCES''))), w)
      else
        (case map_of (files w) path of
           None \<Rightarrow> (Inl (Thrown (js ''Error'') (js ''ENOENT: no such file or directory'') (Some (js ''ENOENT''))), w)
         | Some content \<Rightarrow> (Inr content, w)))"

definition sim_writeFile :: "js_string \<Rightarrow> js_string \<Rightarrow> sim_world \<Rightarrow> (error + unit) \<times> sim_world" where
  "sim_writeFile path content w =
     (if path \<in> set (unreadable w)
      then (Inl (Thrown (js ''Error'') (js ''EACCES: permission denied'') (Some (js ''EACCES''))), w)
      else (Inr (), w\<lparr>files := AList.update path content (files w)\<rparr>))"

definition sim_status :: "sim_world \<Rightarrow> StatusResult" where
  "sim_status w =
     (let c = filter (\<lambda>path. map_of (head_tree w) path = None) (map fst (index_tree w));
          m = filter (\<lambda>path. map_of (head_tree w) path \<noteq> None
                        \<and> map_of (head_tree w) path \<noteq> map_of (index_tree w) path) (map fst (index_tree w));
          d = filter (\<lambda>path. map_of (index_tree w) path = None) (map fst (head_tree w))
      in \<lparr>not_added = [], conflicted = [], created = c, deleted = d, modified = m, staged = c @ m @ d\<rparr>)"

definition sim_remote :: "sim_world \<Rightarrow> (error + unit) \<times> sim_world" where
  "sim_remote w =
     (if online w then (Inr (), w)
      else (Inl (Thrown (js ''Error'') (js ''Could not read from remote repository.'') None), w))"

definition sim_parse :: "js_string \<Rightarrow> js_string + AnnotationData" where
  "sim_parse content =
     (if content = js ''1.0'' then Inr \<lparr>annotations' = [], version = js ''1.0''\<rparr>
      else Inl (js ''Unexpected token''))"

definition sim_stringify :: "AnnotationData \<Rightarrow> js_string" where
  "sim_stringify data =
     version data @ concat (map (\<lambda>a. js '' '' @ id' a @ js ''='' @ text' a) (annotations' data))"

definition sim :: "sim_world env" where
  "sim =
     \<lparr>path_normalize = posix_normalize,
      path_basename = posix_basename,
      path_dirname = posix_dirname,
      path_join = posix_join,
      sha256_hex = (\<lambda>data. replicate 64 0x30),
      JSON_parse = sim_parse,
      JSON_stringify = sim_stringify,
      Date_now = clock,
      fs_readFile = sim_readFile,
      fs_mkdir = (\<lambda>dir w. (Inr (), w)),
      fs_writeFile = sim_writeFile,
      git_add = (\<lambda>w. (Inr (), w\<lparr>index_tree := files w\<rparr>)),
      git_status = (\<lambda>w. (Inr (sim_status w), w)),
      git_commit = (\<lambda>msg w. (Inr (), w\<lparr>head_tree := index_tree w\<rparr>)),
      git_getRemotes = (\<lambda>w. (Inr (remotes w), w)),
      git_push = sim_remote,
      git_pull = sim_remote\<rparr>"

section \<open>Sample data\<close>

definition note_a :: Annotation where
  "note_a = \<lparr>id' = js ''id-a'', filePath = js ''a.ts'', line = 10, column = 0, text' = js ''fix this'',
              author = js ''Alice'', timestamp = 1000, projectPath = js ''/tmp/proj''\<rparr>"

definition note_b :: Annotation where
  "note_b = \<lparr>id' = js ''id-b'', filePath = js ''b.ts'', line = 3, column = 0, text' = js ''why?'',
              author = js ''Bob'', timestamp = 2000, projectPath = js ''/tmp/proj''\<rparr>"

definition world0 :: sim_world where
  "world0 = \<lparr>files = [], unreadable = [], head_tree = [], index_tree = [], remotes = [],
              online = True, clock = 1000\<rparr>"

definition runtime0 :: "sim_world runtime" where
  "runtime0 = \<lparr>annotations = [js ''/tmp/proj'' \<mapsto> [note_a]], git = True,
                repoPath = Some (js ''/repo''), world = world0, trace = []\<rparr>"

definition annotations_json :: js_string where
  \<comment> \<open>where \<open>sim\<close> keeps the document of \<open>/tmp/proj\<close> in the repository \<open>/repo\<close>\<close>
  "annotations_json = js ''/repo/proj_0000000000000000/annotations.json''"

definition runtime_unreadable :: "sim_world runtime" where
  "runtime_unreadable = runtime0\<lparr>world := world0\<lparr>unreadable := [annotations_json]\<rparr>\<rparr>"

definition runtime_garbled :: "sim_world runtime" where
  "runtime_garbled = runtime0\<lparr>world := world0\<lparr>files := [(annotations_json, js ''{oops'')]\<rparr>\<rparr>"

definition runtime_offline :: "sim_world runtime" where
  "runtime_offline = runtime0\<lparr>world := world0\<lparr>remotes := [js ''origin''], online := False\<rparr>\<rparr>"

definition runtime_later :: "sim_world runtime" where
  "runtime_later = runtime0\<lparr>world := world0\<lparr>clock := 5000\<rparr>\<rparr>"

definition runtime_fresh :: "sim_world runtime" where
  \<comment> \<open>a new \<open>AnnotationStorage\<close> on a new \<open>GitService\<close>, before \<open>initialize\<close>\<close>
  "runtime_fresh = \<lparr>annotations = Map.empty, git = False, repoPath = None, world = world0, trace = []\<rparr>"

definition world_committed :: sim_world where
  \<comment> \<open>the document of \<open>/tmp/proj\<close> holding \<open>note_a\<close> is on disk and in the last commit\<close>
  "world_committed =
     \<lparr>files = [(annotations_json, js ''1.0 id-a=fix this'')], unreadable = [],
      head_tree = [(annotations_json, js ''1.0 id-a=fix this'')],
      index_tree = [(annotations_json, js ''1.0 id-a=fix this'')],
      remotes = [], online = True, clock = 1000\<rparr>"

definition runtime_committed :: "sim_world runtime" where
  "runtime_committed = runtime0\<lparr>world := world_committed\<rparr>"

section \<open>What a call leaves alone\<close>

lemma perform_frame:
  "annotations (snd (perform ev f s)) = annotations s"
  "git (snd (perform ev f s)) = git s"
  "repoPath (snd (perform ev f s)) = repoPath s"
  by (simp_all add: perform_def split: prod.splits)

lemma perform_frame_eq:
  "perform ev f s = (r, s') \<Longrightarrow> annotations s' = annotations s"
  "perform ev f s = (r, s') \<Longrightarrow> git s' = git s"
  "perform ev f s = (r, s') \<Longrightarrow> repoPath s' = repoPath s"
  using perform_frame [of ev f s] by simp_all

lemma saveAnnotations_frame:
  "annotations (snd (saveAnnotations E p s)) = annotations s"
  "git (snd (saveAnnotations E p s)) = git s"
  "repoPath (snd (saveAnnotations E p s)) = repoPath s"
  by (simp_all add: saveAnnotations_def getRepoPath_def Let_def perform_frame perform_frame_eq
      split: option.splits prod.splits sum.splits)

lemma commitAndPush_try_frame:
  "annotations (snd (commitAndPush_try E m s)) = annotations s"
  "git (snd (commitAndPush_try E m s)) = git s"
  "repoPath (snd (commitAndPush_try E m s)) = repoPath s"
  by (simp_all add: commitAndPush_try_def perform_frame perform_frame_eq split: prod.splits sum.splits)

lemma commitAndPush_frame:
  "annotations (snd (commitAndPush E m s)) = annotations s"
  "git (snd (commitAndPush E m s)) = git s"
  "repoPath (snd (commitAndPush E m s)) = repoPath s"
  using commitAndPush_try_frame [of E m s]
  by (auto simp: commitAndPush_def split: prod.splits sum.splits)

lemma pull_try_frame:
  "annotations (snd (pull_try E s)) = annotations s"
  "git (snd (pull_try E s)) = git s"
  "repoPath (snd (pull_try E s)) = repoPath s"
  by (simp_all add: pull_try_def perform_frame perform_frame_eq split: prod.splits sum.splits)

lemma pull_frame:
  "annotations (snd (pull E s)) = annotations s"
  "git (snd (pull E s)) = git s"
  "repoPath (snd (pull E s)) = repoPath s"
  using pull_try_frame [of E s]
  by (auto simp: pull_def split: prod.splits sum.splits)

lemma loadAnnotations_catch_other:
  "q \<noteq> p \<Longrightarrow> annotations (snd (loadAnnotations_catch p e s)) q = annotations s q"
  by (simp add: loadAnnotations_catch_def showWarningMessage_def Let_def)

lemma loadAnnotations_other:
  "q \<noteq> p \<Longrightarrow> annotations (snd (loadAnnotations E p s)) q = annotations s q"
  by (simp add: loadAnnotations_def getRepoPath_def Let_def perform_frame perform_frame_eq loadAnnotations_catch_other
      split: option.splits prod.splits sum.splits)

section \<open>Searching an array\<close>

lemma find_split:
  "find P xs = Some a \<Longrightarrow>
     \<exists>pre post. xs = pre @ a # post \<and> (\<forall>x\<in>set pre. \<not> P x) \<and> P a
       \<and> assign_found P f xs = pre @ f a # post"
proof (induction xs)
  case Nil
  then show ?case by simp
next
  case (Cons x xs)
  show ?case
  proof (cases "P x")
    case True
    with Cons.prems have "x = a" by simp
    with True have "x # xs = [] @ a # xs \<and> (\<forall>y\<in>set []. \<not> P y) \<and> P a
        \<and> assign_found P f (x # xs) = [] @ f a # xs"
      by simp
    then show ?thesis by blast
  next
    case False
    with Cons.prems have "find P xs = Some a" by simp
    from Cons.IH [OF this] obtain pre post where
      "xs = pre @ a # post" "\<forall>y\<in>set pre. \<not> P y" "P a" "assign_found P f xs = pre @ f a # post"
      by blast
    with False have "x # xs = (x # pre) @ a # post \<and> (\<forall>y\<in>set (x # pre). \<not> P y) \<and> P a
        \<and> assign_found P f (x # xs) = (x # pre) @ f a # post"
      by simp
    then show ?thesis by blast
  qed
qed

lemma find_append_first:
  "\<forall>x\<in>set pre. \<not> P x \<Longrightarrow> P b \<Longrightarrow> find P (pre @ b # post) = Some b"
  by (induction pre) simp_all

lemma find_absent: "k \<notin> f ` set xs \<Longrightarrow> find (\<lambda>a. f a = k) xs = None"
  by (induction xs) auto

lemma filter_absent: "k \<notin> f ` set xs \<Longrightarrow> filter (\<lambda>a. f a \<noteq> k) xs = xs"
  by (induction xs) auto

section \<open>The store\<close>

text \<open>
  Claim C5. Let no annotation in the collection of \<open>a\<close>'s project have \<open>a\<close>'s identifier.
  Then \<open>addAnnotation a\<close> followed by \<open>removeAnnotation\<close> of \<open>a\<close>'s identifier in \<open>a\<close>'s
  project leaves every project with the collection it had before the add, and if the
  project had an entry in the map before, the whole map is as it was. The two saves may
  succeed or fail: the change in memory is made before each of them.
\<close>

theorem add_then_remove_restores:
  assumes "id' a \<notin> id' ` set (getAllAnnotations (projectPath a) s)"
  shows "getAllAnnotations q
           (snd (removeAnnotation E (id' a) (projectPath a) (snd (addAnnotation E a s))))
         = getAllAnnotations q s
       \<and> (annotations s (projectPath a) \<noteq> None \<longrightarrow>
            annotations (snd (removeAnnotation E (id' a) (projectPath a) (snd (addAnnotation E a s))))
            = annotations s)"
proof -
  have "filter (\<lambda>b. id' b \<noteq> id' a) (getAllAnnotations (projectPath a) s)
        = getAllAnnotations (projectPath a) s"
    using assms by (rule filter_absent)
  then show ?thesis
    by (auto simp: removeAnnotation_def addAnnotation_def Let_def getAllAnnotations_def
        saveAnnotations_frame split: option.splits)
qed

theorem add_then_remove_restores_witness:
  "id' note_b \<notin> id' ` set (getAllAnnotations (projectPath note_b) runtime0)
   \<and> getAllAnnotations (js ''/tmp/proj'')
        (snd (removeAnnotation sim (id' note_b) (projectPath note_b) (snd (addAnnotation sim note_b runtime0))))
       = [note_a]"
proof -
  have h: "id' note_b \<notin> id' ` set (getAllAnnotations (projectPath note_b) runtime0)"
    by code_simp
  have "getAllAnnotations (js ''/tmp/proj'') runtime0 = [note_a]"
    by (simp add: getAllAnnotations_def runtime0_def)
  with h add_then_remove_restores [OF h, of "js ''/tmp/proj''" sim] show ?thesis
    by simp
qed

text \<open>
  Claim C6. \<open>getAnnotationsForFile\<close> returns a subsequence of the project's collection, in
  the collection's order; its elements are exactly the annotations of the collection whose
  \<open>filePath\<close> is the argument, code unit for code unit; and it is the whole of it: every
  subsequence of the collection made of annotations of that file is a subsequence of the
  result. The collection's order is the order of insertion: \<open>addAnnotation\<close> puts the new
  annotation at the end.
\<close>

theorem getAnnotationsForFile_exact:
  "subseq (getAnnotationsForFile f p s) (getAllAnnotations p s)
   \<and> set (getAnnotationsForFile f p s) = {a \<in> set (getAllAnnotations p s). filePath a = f}
   \<and> (\<forall>ys. subseq ys (getAllAnnotations p s) \<and> (\<forall>a\<in>set ys. filePath a = f)
          \<longrightarrow> subseq ys (getAnnotationsForFile f p s))
   \<and> getAllAnnotations (projectPath b) (snd (addAnnotation E b s))
       = getAllAnnotations (projectPath b) s @ [b]"
proof -
  have last: "getAllAnnotations (projectPath b) (snd (addAnnotation E b s))
       = getAllAnnotations (projectPath b) s @ [b]"
    by (simp add: addAnnotation_def Let_def getAllAnnotations_def saveAnnotations_frame)
  have "subseq ys (filter (\<lambda>a. filePath a = f) xs)"
    if "subseq ys xs" "\<forall>a\<in>set ys. filePath a = f" for ys xs :: "Annotation list"
  proof -
    have "filter (\<lambda>a. filePath a = f) ys = ys" using that(2) by (simp add: filter_id_conv)
    with subseq_filter [OF that(1), of "\<lambda>a. filePath a = f"] show ?thesis by simp
  qed
  with last show ?thesis by (auto simp: getAnnotationsForFile_def)
qed

theorem getAnnotationsForFile_exact_witness:
  "getAllAnnotations (js ''/tmp/proj'') (snd (addAnnotation sim note_b runtime0)) = [note_a, note_b]
   \<and> getAnnotationsForFile (js ''a.ts'') (js ''/tmp/proj'') (snd (addAnnotation sim note_b runtime0)) = [note_a]
   \<and> subseq [note_a] [note_a, note_b]"
proof -
  let ?s = "snd (addAnnotation sim note_b runtime0)"
  have before: "projectPath note_b = js ''/tmp/proj''"
    "getAllAnnotations (js ''/tmp/proj'') runtime0 = [note_a]"
    by code_simp+
  have found: "getAnnotationsForFile (js ''a.ts'') (js ''/tmp/proj'') ?s = [note_a]"
    by code_simp
  from getAnnotationsForFile_exact [of _ _ runtime0 note_b sim] before
  have all: "getAllAnnotations (js ''/tmp/proj'') ?s = [note_a, note_b]"
    by simp
  from getAnnotationsForFile_exact [of "js ''a.ts''" "js ''/tmp/proj''" ?s]
  have "subseq (getAnnotationsForFile (js ''a.ts'') (js ''/tmp/proj'') ?s) (getAllAnnotations (js ''/tmp/proj'') ?s)"
    by blast
  with all found show ?thesis by simp
qed

text \<open>
  Claim C8. When no annotation of the project's collection has the identifier,
  \<open>updateAnnotation\<close> returns normally and the whole state is as before: the map, the
  outside world and the trace, to which no \<open>Mkdir\<close> and no \<open>WriteFile\<close> was added.
\<close>

theorem updateAnnotation_absent_noop:
  "ident \<notin> id' ` set (getAllAnnotations p s) \<Longrightarrow> updateAnnotation E ident p t s = (Inr (), s)"
  by (simp add: updateAnnotation_def Let_def find_absent)

theorem updateAnnotation_absent_noop_witness:
  "js ''id-b'' \<notin> id' ` set (getAllAnnotations (js ''/tmp/proj'') runtime0)
   \<and> updateAnnotation sim (js ''id-b'') (js ''/tmp/proj'') (js ''fixed'') runtime0 = (Inr (), runtime0)"
proof -
  have h: "js ''id-b'' \<notin> id' ` set (getAllAnnotations (js ''/tmp/proj'') runtime0)"
    by code_simp
  from h updateAnnotation_absent_noop [OF h] show ?thesis by simp
qed

text \<open>
  Claim C10. An operation on project \<open>p\<close> leaves the map's entry of every other project
  \<open>q\<close> as it was: \<open>loadAnnotations\<close>, \<open>addAnnotation\<close> (whose project is the annotation's
  \<open>projectPath\<close>), \<open>updateAnnotation\<close>, \<open>removeAnnotation\<close> and \<open>sync\<close>.
\<close>

theorem operations_frame:
  assumes "q \<noteq> p"
  shows "annotations (snd (loadAnnotations E p s)) q = annotations s q
       \<and> (projectPath a = p \<longrightarrow> annotations (snd (addAnnotation E a s)) q = annotations s q)
       \<and> annotations (snd (updateAnnotation E i p t s)) q = annotations s q
       \<and> annotations (snd (removeAnnotation E i p s)) q = annotations s q
       \<and> annotations (snd (sync E p s)) q = annotations s q"
proof -
  have "annotations (snd (sync E p s)) q = annotations s q"
  proof (cases "pull E s")
    case (Pair r s1)
    with pull_frame(1) [of E s] have "annotations s1 = annotations s" by simp
    with Pair loadAnnotations_other [OF assms, of E s1] show ?thesis
      by (cases r) (simp_all add: sync_def)
  qed
  with assms show ?thesis
    by (simp add: loadAnnotations_other addAnnotation_def removeAnnotation_def updateAnnotation_def
        saveAnnotations_frame Let_def split: option.splits)
qed

theorem operations_frame_witness:
  "js ''/tmp/proj'' \<noteq> js ''/tmp/other''
   \<and> annotations (snd (loadAnnotations sim (js ''/tmp/other'') runtime0)) (js ''/tmp/proj'') = Some [note_a]
   \<and> annotations (snd (addAnnotation sim (note_b\<lparr>projectPath := js ''/tmp/other''\<rparr>) runtime0)) (js ''/tmp/proj'') = Some [note_a]
   \<and> annotations (snd (updateAnnotation sim (js ''id-a'') (js ''/tmp/other'') (js ''fixed'') runtime0)) (js ''/tmp/proj'') = Some [note_a]
   \<and> annotations (snd (removeAnnotation sim (js ''id-a'') (js ''/tmp/other'') runtime0)) (js ''/tmp/proj'') = Some [note_a]
   \<and> annotations (snd (sync sim (js ''/tmp/other'') runtime0)) (js ''/tmp/proj'') = Some [note_a]"
proof -
  have h: "js ''/tmp/proj'' \<noteq> js ''/tmp/other''" by code_simp
  have a: "annotations runtime0 (js ''/tmp/proj'') = Some [note_a]" by (simp add: runtime0_def)
  from h operations_frame [OF h, of sim runtime0 "note_b\<lparr>projectPath := js ''/tmp/other''\<rparr>" "js ''id-a''" "js ''fixed''"]
  show ?thesis by (simp add: a)
qed

section \<open>The path hasher\<close>

lemma replace_non_word_nth:
  "i < length b \<Longrightarrow>
   replace_non_word b ! i = (if alphanumeric (b ! i) \<or> b ! i = 0x2D \<or> b ! i = 0x5F then b ! i else 0x5F)"
  by (simp add: replace_non_word_def word_char_def alphanumeric_def)

lemma replace_non_word_no_hyphen:
  "0x2D \<notin> set b \<Longrightarrow> replace_non_word b = map (\<lambda>c. if alphanumeric c then c else 0x5F) b"
  by (auto simp: replace_non_word_def word_char_def alphanumeric_def)

text \<open>
  Claim C4, amended. The storage location is \<open>repo / (name _ digest) / annotations.json\<close>,
  where \<open>/\<close> is \<open>path.join\<close>, the digest is the first 16 characters of the SHA-256 hex digest
  of the normalized project path (16 characters, the hex digest having 64), and the name is
  the basename of the normalized path, code unit by code unit, with every code unit other
  than an ASCII letter, a digit, a hyphen or an underscore replaced by an underscore: the
  hyphen is kept. Where the basename has no hyphen this is the specification's composition.
\<close>

theorem getAnnotationFilePath_composition:
  "\<exists>name digest.
     getAnnotationFilePath E p repo
       = path_join E (path_join E repo (name @ js ''_'' @ digest)) (js ''annotations.json'')
     \<and> digest = take 16 (sha256_hex E (path_normalize E p))
     \<and> (length (sha256_hex E (path_normalize E p)) = 64 \<longrightarrow> length digest = 16)
     \<and> length name = length (path_basename E (path_normalize E p))
     \<and> (\<forall>i < length name. name ! i =
          (let c = path_basename E (path_normalize E p) ! i
           in if alphanumeric c \<or> c = 0x2D \<or> c = 0x5F then c else 0x5F))
     \<and> (0x2D \<notin> set (path_basename E (path_normalize E p)) \<longrightarrow>
          getAnnotationFilePath E p repo = spec_locationFor E p repo)"
proof -
  let ?b = "path_basename E (path_normalize E p)"
  let ?name = "replace_non_word ?b"
  let ?digest = "take 16 (sha256_hex E (path_normalize E p))"
  have 1: "getAnnotationFilePath E p repo
       = path_join E (path_join E repo (?name @ js ''_'' @ ?digest)) (js ''annotations.json'')"
    by (simp add: getAnnotationFilePath_def hashProjectPath_def Let_def)
  have 2: "length ?name = length ?b" by (simp add: replace_non_word_def)
  have 3: "\<forall>i < length ?name. ?name ! i =
          (let c = ?b ! i in if alphanumeric c \<or> c = 0x2D \<or> c = 0x5F then c else 0x5F)"
    using replace_non_word_nth [of _ ?b] by (simp add: 2 Let_def)
  have 4: "0x2D \<notin> set ?b \<longrightarrow> getAnnotationFilePath E p repo = spec_locationFor E p repo"
    by (simp add: 1 spec_locationFor_def replace_non_word_no_hyphen)
  from 1 2 3 4 show ?thesis by (intro exI [of _ ?name] exI [of _ ?digest]) simp
qed

theorem getAnnotationFilePath_composition_witness:
  "length (sha256_hex sim (path_normalize sim (js ''/tmp/my proj.v2''))) = 64
   \<and> 0x2D \<notin> set (path_basename sim (path_normalize sim (js ''/tmp/my proj.v2'')))
   \<and> getAnnotationFilePath sim (js ''/tmp/my proj.v2'') (js ''/repo'')
       = spec_locationFor sim (js ''/tmp/my proj.v2'') (js ''/repo'')
   \<and> (\<exists>name digest.
         getAnnotationFilePath sim (js ''/tmp/my proj.v2'') (js ''/repo'')
           = path_join sim (path_join sim (js ''/repo'') (name @ js ''_'' @ digest)) (js ''annotations.json'')
         \<and> length digest = 16 \<and> length name = 10 \<and> name ! 2 = 0x5F \<and> name ! 3 = 0x70)"
proof -
  let ?P = "js ''/tmp/my proj.v2''"
  let ?b = "path_basename sim (path_normalize sim ?P)"
  have h1: "length (sha256_hex sim (path_normalize sim ?P)) = 64" by code_simp
  have h2: "0x2D \<notin> set ?b" by code_simp
  have b: "length ?b = 10" "?b ! 2 = 0x20" "?b ! 3 = 0x70"
    "\<not> (alphanumeric (0x20 :: utf16) \<or> (0x20 :: utf16) = 0x2D \<or> (0x20 :: utf16) = 0x5F)"
    "alphanumeric (0x70 :: utf16)"
    by code_simp+
  from getAnnotationFilePath_composition [of sim ?P "js ''/repo''"] obtain name digest where
    c: "getAnnotationFilePath sim ?P (js ''/repo'')
         = path_join sim (path_join sim (js ''/repo'') (name @ js ''_'' @ digest)) (js ''annotations.json'')"
      "length (sha256_hex sim (path_normalize sim ?P)) = 64 \<longrightarrow> length digest = 16"
      "length name = length ?b"
      "\<forall>i < length name. name ! i =
          (let c = ?b ! i in if alphanumeric c \<or> c = 0x2D \<or> c = 0x5F then c else 0x5F)"
      "0x2D \<notin> set ?b \<longrightarrow> getAnnotationFilePath sim ?P (js ''/repo'') = spec_locationFor sim ?P (js ''/repo'')"
    by blast
  from c(3) b(1) have len: "length name = 10" by simp
  from c(4) len have "name ! 2 = (let c = ?b ! 2 in if alphanumeric c \<or> c = 0x2D \<or> c = 0x5F then c else 0x5F)"
    "name ! 3 = (let c = ?b ! 3 in if alphanumeric c \<or> c = 0x2D \<or> c = 0x5F then c else 0x5F)"
    by simp_all
  with b have n: "name ! 2 = 0x5F" "name ! 3 = 0x70" by (simp_all add: Let_def)
  from c(1) c(2) h1 len n
  have "\<exists>name digest.
         getAnnotationFilePath sim ?P (js ''/repo'')
           = path_join sim (path_join sim (js ''/repo'') (name @ js ''_'' @ digest)) (js ''annotations.json'')
         \<and> length digest = 16 \<and> length name = 10 \<and> name ! 2 = 0x5F \<and> name ! 3 = 0x70"
    by blast
  with h1 h2 c(5) show ?thesis by blast
qed

text \<open>
  The claim as stated fails on the project \<open>/tmp/my-proj\<close>: the program keeps the hyphen of
  the basename, the specification's composition replaces it.
\<close>

theorem getAnnotationFilePath_hyphen_counterexample:
  "getAnnotationFilePath sim (js ''/tmp/my-proj'') (js ''/repo'')
     = js ''/repo/my-proj_0000000000000000/annotations.json''
   \<and> spec_locationFor sim (js ''/tmp/my-proj'') (js ''/repo'')
     = js ''/repo/my_proj_0000000000000000/annotations.json''
   \<and> getAnnotationFilePath sim (js ''/tmp/my-proj'') (js ''/repo'')
     \<noteq> spec_locationFor sim (js ''/tmp/my-proj'') (js ''/repo'')"
  by code_simp

text \<open>
  Claim C9. Two project paths with the same normal form have the same directory name and
  the same storage location; so a path and its normal form have, \<open>path.normalize\<close> being
  idempotent on it. The directory name is a function of the path and of three library
  functions only (\<open>path.normalize\<close>, \<open>path.basename\<close>, the digest): nothing of the disk, the
  clock, the repository or the process state enters it.
\<close>

theorem locationFor_normalization_invariant:
  "(path_normalize E p = path_normalize E q \<longrightarrow>
      hashProjectPath E p = hashProjectPath E q
      \<and> getAnnotationFilePath E p repo = getAnnotationFilePath E q repo)
   \<and> (path_normalize E (path_normalize E p) = path_normalize E p \<longrightarrow>
        getAnnotationFilePath E (path_normalize E p) repo = getAnnotationFilePath E p repo)
   \<and> (path_normalize E' = path_normalize E \<and> path_basename E' = path_basename E
        \<and> sha256_hex E' = sha256_hex E \<longrightarrow> hashProjectPath E' p = hashProjectPath E p)"
  by (simp add: hashProjectPath_def getAnnotationFilePath_def)

theorem locationFor_normalization_invariant_witness:
  "js ''/home/u/../u/./proj'' \<noteq> js ''/home/u/proj''
   \<and> path_normalize sim (js ''/home/u/../u/./proj'') = path_normalize sim (js ''/home/u/proj'')
   \<and> getAnnotationFilePath sim (js ''/home/u/../u/./proj'') (js ''/repo'')
       = getAnnotationFilePath sim (js ''/home/u/proj'') (js ''/repo'')
   \<and> getAnnotationFilePath sim (path_normalize sim (js ''/home/u/../u/./proj'')) (js ''/repo'')
       = getAnnotationFilePath sim (js ''/home/u/../u/./proj'') (js ''/repo'')
   \<and> hashProjectPath (sim\<lparr>Date_now := \<lambda>w. 0, fs_readFile := \<lambda>path w. (Inr [], w)\<rparr>) (js ''/home/u/../u/./proj'')
       = hashProjectPath sim (js ''/home/u/../u/./proj'')"
proof -
  let ?p = "js ''/home/u/../u/./proj''"
  let ?q = "js ''/home/u/proj''"
  let ?E = "sim\<lparr>Date_now := \<lambda>w. 0, fs_readFile := \<lambda>path w. (Inr [], w)\<rparr>"
  have h0: "?p \<noteq> ?q" by code_simp
  have h1: "path_normalize sim ?p = path_normalize sim ?q" by code_simp
  have h2: "path_normalize sim (path_normalize sim ?p) = path_normalize sim ?p" by code_simp
  have h3: "path_normalize ?E = path_normalize sim \<and> path_basename ?E = path_basename sim
      \<and> sha256_hex ?E = sha256_hex sim"
    by simp
  from locationFor_normalization_invariant [of sim ?p ?q "js ''/repo''" ?E] h0 h1 h2 h3 show ?thesis by simp
qed

section \<open>Loading\<close>

lemma loadAnnotations_returns: "fst (loadAnnotations E p s) = Inr ()"
  by (simp add: loadAnnotations_def loadAnnotations_catch_def getRepoPath_def Let_def
      split: option.splits prod.splits sum.splits)

text \<open>
  Claim C1, amended. \<open>loadAnnotations\<close> returns normally in every state and whatever the
  libraries answer. With the repository path set (not \<open>null\<close>, not empty): when the read of
  the document is rejected with code \<open>ENOENT\<close>, the project's collection becomes the empty
  array and the only call made is the read (no warning); when the read is rejected with
  another code or none, or the content is read and the rest of the \<open>try\<close> block throws, the
  collection becomes the empty array and one warning is shown after the read, carrying the
  exception's message. Without a repository path the guard at the top returns at once:
  nothing is read and the state, the project's collection with it, stays as it is.
\<close>

theorem loadAnnotations_degrades:
  "fst (loadAnnotations E p s) = Inr ()
   \<and> (repoPath s = Some repo \<and> repo \<noteq> []
          \<and> fs_readFile E (getAnnotationFilePath E p repo) (world s) = (Inl e, w)
          \<and> code e = Some (js ''ENOENT'')
        \<longrightarrow> snd (loadAnnotations E p s)
            = s\<lparr>annotations := (annotations s)(p \<mapsto> []), world := w,
                trace := trace s @ [ReadFile (getAnnotationFilePath E p repo)]\<rparr>)
   \<and> (repoPath s = Some repo \<and> repo \<noteq> []
          \<and> fs_readFile E (getAnnotationFilePath E p repo) (world s) = (Inl e, w)
          \<and> code e \<noteq> Some (js ''ENOENT'')
        \<longrightarrow> snd (loadAnnotations E p s)
            = s\<lparr>annotations := (annotations s)(p \<mapsto> []), world := w,
                trace := trace s @ [ReadFile (getAnnotationFilePath E p repo),
                  ShowWarningMessage (js ''Failed to load annotations: '' @ message e)]\<rparr>)
   \<and> (repoPath s = Some repo \<and> repo \<noteq> []
          \<and> fs_readFile E (getAnnotationFilePath E p repo) (world s) = (Inr content, w)
          \<and> JSON_parse E content = Inl m
        \<longrightarrow> snd (loadAnnotations E p s)
            = s\<lparr>annotations := (annotations s)(p \<mapsto> []), world := w,
                trace := trace s @ [ReadFile (getAnnotationFilePath E p repo),
                  ShowWarningMessage (js ''Failed to load annotations: '' @ m)]\<rparr>)
   \<and> (repoPath s = None \<or> repoPath s = Some [] \<longrightarrow> snd (loadAnnotations E p s) = s)"
  by (simp add: loadAnnotations_returns)
     (simp add: loadAnnotations_def loadAnnotations_catch_def getRepoPath_def Let_def perform_def
        showWarningMessage_def)

theorem loadAnnotations_degrades_witness:
  "fst (loadAnnotations sim (js ''/tmp/proj'') runtime0) = Inr ()
   \<and> annotations (snd (loadAnnotations sim (js ''/tmp/proj'') runtime0)) (js ''/tmp/proj'') = Some []
   \<and> trace (snd (loadAnnotations sim (js ''/tmp/proj'') runtime0)) = [ReadFile annotations_json]
   \<and> annotations (snd (loadAnnotations sim (js ''/tmp/proj'') runtime_unreadable)) (js ''/tmp/proj'') = Some []
   \<and> trace (snd (loadAnnotations sim (js ''/tmp/proj'') runtime_unreadable))
       = [ReadFile annotations_json,
          ShowWarningMessage (js ''Failed to load annotations: EACCES: permission denied'')]
   \<and> annotations (snd (loadAnnotations sim (js ''/tmp/proj'') runtime_garbled)) (js ''/tmp/proj'') = Some []
   \<and> trace (snd (loadAnnotations sim (js ''/tmp/proj'') runtime_garbled))
       = [ReadFile annotations_json,
          ShowWarningMessage (js ''Failed to load annotations: Unexpected token'')]
   \<and> snd (loadAnnotations sim (js ''/tmp/proj'') runtime_fresh) = runtime_fresh"
proof -
  let ?p = "js ''/tmp/proj''"
  let ?repo = "js ''/repo''"
  let ?enoent = "Thrown (js ''Error'') (js ''ENOENT: no such file or directory'') (Some (js ''ENOENT''))"
  let ?eacces = "Thrown (js ''Error'') (js ''EACCES: permission denied'') (Some (js ''EACCES''))"
  have loc: "getAnnotationFilePath sim ?p ?repo = annotations_json" by code_simp
  have repo: "repoPath runtime0 = Some ?repo" "repoPath runtime_unreadable = Some ?repo"
    "repoPath runtime_garbled = Some ?repo" "?repo \<noteq> []"
    by code_simp+
  have r1: "fs_readFile sim annotations_json (world runtime0) = (Inl ?enoent, world0)"
    "code ?enoent = Some (js ''ENOENT'')"
    by code_simp+
  have r2: "fs_readFile sim annotations_json (world runtime_unreadable) = (Inl ?eacces, world runtime_unreadable)"
    "code ?eacces \<noteq> Some (js ''ENOENT'')"
    by code_simp+
  have r3: "fs_readFile sim annotations_json (world runtime_garbled) = (Inr (js ''{oops''), world runtime_garbled)"
    "JSON_parse sim (js ''{oops'') = Inl (js ''Unexpected token'')"
    by code_simp+
  have t: "trace runtime0 = []" "trace runtime_unreadable = []" "trace runtime_garbled = []"
    by code_simp+
  have m: "js ''Failed to load annotations: '' @ message ?eacces
           = js ''Failed to load annotations: EACCES: permission denied''"
    "js ''Failed to load annotations: '' @ js ''Unexpected token''
           = js ''Failed to load annotations: Unexpected token''"
    by code_simp+
  from loadAnnotations_degrades [of sim ?p runtime0 ?repo ?enoent world0] repo r1 loc
  have 1: "fst (loadAnnotations sim ?p runtime0) = Inr ()"
    "snd (loadAnnotations sim ?p runtime0)
     = runtime0\<lparr>annotations := (annotations runtime0)(?p \<mapsto> []), world := world0,
         trace := trace runtime0 @ [ReadFile annotations_json]\<rparr>"
    by simp_all
  from loadAnnotations_degrades [of sim ?p runtime_unreadable ?repo ?eacces "world runtime_unreadable"] repo r2 loc
  have 2: "snd (loadAnnotations sim ?p runtime_unreadable)
     = runtime_unreadable\<lparr>annotations := (annotations runtime_unreadable)(?p \<mapsto> []),
         world := world runtime_unreadable,
         trace := trace runtime_unreadable @ [ReadFile annotations_json,
           ShowWarningMessage (js ''Failed to load annotations: '' @ message ?eacces)]\<rparr>"
    by simp
  from loadAnnotations_degrades [of sim ?p runtime_garbled ?repo _ "world runtime_garbled" "js ''{oops''" "js ''Unexpected token''"]
    repo r3 loc
  have 3: "snd (loadAnnotations sim ?p runtime_garbled)
     = runtime_garbled\<lparr>annotations := (annotations runtime_garbled)(?p \<mapsto> []),
         world := world runtime_garbled,
         trace := trace runtime_garbled @ [ReadFile annotations_json,
           ShowWarningMessage (js ''Failed to load annotations: '' @ js ''Unexpected token'')]\<rparr>"
    by simp
  have "repoPath runtime_fresh = None" by code_simp
  with loadAnnotations_degrades [of sim ?p runtime_fresh]
  have 4: "snd (loadAnnotations sim ?p runtime_fresh) = runtime_fresh" by simp
  show ?thesis unfolding 1 2 3 4 m by (simp add: t)
qed

text \<open>
  The claim as stated fails in a store whose adapter has no repository path. On a new
  store, \<open>addAnnotation\<close> puts the annotation into the collection and then throws from the
  save; no document exists, on a disk without files; \<open>loadAnnotations\<close> of the project
  returns normally and the collection still holds the annotation.
\<close>

theorem loadAnnotations_unconfigured_counterexample:
  "fst (addAnnotation sim note_a runtime_fresh)
     = Inl (new_Error (js ''Annotation repository not configured''))
   \<and> files (world (snd (addAnnotation sim note_a runtime_fresh))) = []
   \<and> fst (loadAnnotations sim (js ''/tmp/proj'') (snd (addAnnotation sim note_a runtime_fresh))) = Inr ()
   \<and> getAllAnnotations (js ''/tmp/proj'')
         (snd (loadAnnotations sim (js ''/tmp/proj'') (snd (addAnnotation sim note_a runtime_fresh))))
       = [note_a]
   \<and> trace (snd (loadAnnotations sim (js ''/tmp/proj'') (snd (addAnnotation sim note_a runtime_fresh)))) = []"
  by code_simp

section \<open>Updating\<close>

text \<open>
  Claim C2, amended. Let \<open>a\<close> be the annotation that \<open>getAnnotationById\<close> finds. After
  \<open>updateAnnotation\<close> the same lookup finds \<open>a\<close> with the new text and with the clock's reading
  at the time of the call as its timestamp, at the place in the collection where \<open>a\<close> stood;
  \<open>id\<close>, \<open>filePath\<close>, \<open>line\<close>, \<open>column\<close>, \<open>author\<close> and \<open>projectPath\<close> are unchanged. The
  timestamp is larger than before when the clock reads later than the old timestamp.
  The save that follows may fail: the change in memory is made before it.
\<close>

theorem updateAnnotation_found:
  assumes "getAnnotationById i p s = Some a"
  shows "\<exists>a' pre post.
           a' = a\<lparr>text' := t, timestamp := Date_now E (world s)\<rparr>
         \<and> getAnnotationById i p (snd (updateAnnotation E i p t s)) = Some a'
         \<and> text' a' = t \<and> timestamp a' = Date_now E (world s)
         \<and> id' a' = id' a \<and> filePath a' = filePath a \<and> line a' = line a \<and> column a' = column a
         \<and> author a' = author a \<and> projectPath a' = projectPath a
         \<and> (timestamp a < Date_now E (world s) \<longrightarrow> timestamp a < timestamp a')
         \<and> getAllAnnotations p s = pre @ a # post \<and> i \<notin> id' ` set pre
         \<and> getAllAnnotations p (snd (updateAnnotation E i p t s)) = pre @ a' # post"
proof -
  let ?f = "\<lambda>a. a\<lparr>text' := t, timestamp := Date_now E (world s)\<rparr>"
  let ?P = "\<lambda>a. id' a = i"
  from assms have found: "find ?P (getAllAnnotations p s) = Some a"
    by (simp add: getAnnotationById_def)
  from find_split [OF found, of ?f] obtain pre post where
    split: "getAllAnnotations p s = pre @ a # post" "\<forall>x\<in>set pre. \<not> ?P x" "?P a"
      "assign_found ?P ?f (getAllAnnotations p s) = pre @ ?f a # post"
    by blast
  have after: "getAllAnnotations p (snd (updateAnnotation E i p t s)) = pre @ ?f a # post"
    using found split(4)
    by (simp add: updateAnnotation_def Let_def saveAnnotations_frame getAllAnnotations_def)
  have "?P (?f a)" using split(3) by simp
  with split(2) have "find ?P (pre @ ?f a # post) = Some (?f a)"
    by (rule find_append_first)
  with after have "getAnnotationById i p (snd (updateAnnotation E i p t s)) = Some (?f a)"
    by (simp add: getAnnotationById_def)
  moreover have "i \<notin> id' ` set pre" using split(2) by auto
  ultimately show ?thesis using split(1) after
    by (intro exI [of _ "?f a"] exI [of _ pre] exI [of _ post]) simp
qed

theorem updateAnnotation_found_witness:
  "getAnnotationById (js ''id-a'') (js ''/tmp/proj'') runtime_later = Some note_a
   \<and> timestamp note_a < Date_now sim (world runtime_later)
   \<and> getAnnotationById (js ''id-a'') (js ''/tmp/proj'')
        (snd (updateAnnotation sim (js ''id-a'') (js ''/tmp/proj'') (js ''fixed'') runtime_later))
       = Some (note_a\<lparr>text' := js ''fixed'', timestamp := 5000\<rparr>)
   \<and> getAllAnnotations (js ''/tmp/proj'')
        (snd (updateAnnotation sim (js ''id-a'') (js ''/tmp/proj'') (js ''fixed'') runtime_later))
       = [note_a\<lparr>text' := js ''fixed'', timestamp := 5000\<rparr>]"
proof -
  let ?p = "js ''/tmp/proj''"
  have h: "getAnnotationById (js ''id-a'') ?p runtime_later = Some note_a" by code_simp
  have now: "Date_now sim (world runtime_later) = 5000" by code_simp
  have old: "timestamp note_a = 1000" by code_simp
  have all: "getAllAnnotations ?p runtime_later = [note_a]" by code_simp
  from updateAnnotation_found [OF h, where t = "js ''fixed''" and E = sim] obtain pre post where
    get: "getAnnotationById (js ''id-a'') ?p
            (snd (updateAnnotation sim (js ''id-a'') ?p (js ''fixed'') runtime_later))
          = Some (note_a\<lparr>text' := js ''fixed'', timestamp := Date_now sim (world runtime_later)\<rparr>)"
    and before: "getAllAnnotations ?p runtime_later = pre @ note_a # post"
    and after: "getAllAnnotations ?p
            (snd (updateAnnotation sim (js ''id-a'') ?p (js ''fixed'') runtime_later))
          = pre @ note_a\<lparr>text' := js ''fixed'', timestamp := Date_now sim (world runtime_later)\<rparr> # post"
    by auto
  from before all have "pre = [] \<and> post = []" by (cases pre) simp_all
  with h get after show ?thesis by (simp add: now old)
qed

text \<open>
  The claim as stated fails when the clock reads what the annotation's timestamp already
  is (an edit in the millisecond of the creation): the timestamp does not increase. And
  when the annotation was stamped by a clock that ran ahead, the timestamp decreases.
\<close>

theorem updateAnnotation_timestamp_counterexample:
  "getAnnotationById (js ''id-a'') (js ''/tmp/proj'') runtime0 = Some note_a
   \<and> getAnnotationById (js ''id-a'') (js ''/tmp/proj'')
        (snd (updateAnnotation sim (js ''id-a'') (js ''/tmp/proj'') (js ''fixed'') runtime0))
       = Some (note_a\<lparr>text' := js ''fixed''\<rparr>)
   \<and> \<not> timestamp note_a < timestamp (note_a\<lparr>text' := js ''fixed''\<rparr>)
   \<and> getAnnotationById (js ''id-b'') (js ''/tmp/proj'')
        (snd (updateAnnotation sim (js ''id-b'') (js ''/tmp/proj'') (js ''fixed'')
               (snd (addAnnotation sim note_b runtime0))))
       = Some (note_b\<lparr>text' := js ''fixed'', timestamp := 1000\<rparr>)
   \<and> timestamp (note_b\<lparr>text' := js ''fixed'', timestamp := 1000\<rparr>) < timestamp note_b"
  by code_simp

section \<open>Synchronisation\<close>

lemma perform_trace_eq:
  "perform ev f s = (r, s') \<Longrightarrow> trace s' = trace s @ [ev]"
  by (auto simp: perform_def split: prod.splits)

lemma pull_trace:
  "\<exists>evs. trace (snd (pull E s)) = trace s @ evs \<and> set evs \<subseteq> {GitGetRemotes, GitPull}"
  by (auto simp: pull_def pull_try_def dest!: perform_trace_eq split: prod.splits sum.splits)

text \<open>
  Claim C7. When \<open>pull\<close> throws, \<open>sync\<close> throws the same error and stops in the state \<open>pull\<close>
  left: the map of collections is the one before the call, for every project, and no file
  was read. When \<open>pull\<close> returns, \<open>sync\<close> is \<open>loadAnnotations\<close> run in the state after it.
\<close>

theorem sync_pull_failure:
  "(fst (pull E s) = Inl e \<longrightarrow>
      sync E p s = (Inl e, snd (pull E s))
      \<and> annotations (snd (sync E p s)) = annotations s
      \<and> (\<forall>f. ReadFile f \<in> set (trace (snd (sync E p s))) \<longrightarrow> ReadFile f \<in> set (trace s)))
   \<and> (fst (pull E s) = Inr () \<longrightarrow> sync E p s = loadAnnotations E p (snd (pull E s)))"
proof -
  obtain evs where evs: "trace (snd (pull E s)) = trace s @ evs" "set evs \<subseteq> {GitGetRemotes, GitPull}"
    using pull_trace [of E s] by blast
  have "sync E p s = (Inl e, snd (pull E s))" if "fst (pull E s) = Inl e"
    using that by (cases "pull E s") (simp add: sync_def)
  moreover have "sync E p s = loadAnnotations E p (snd (pull E s))" if "fst (pull E s) = Inr ()"
    using that by (cases "pull E s") (simp add: sync_def)
  moreover have "ReadFile f \<in> set (trace s)" if "ReadFile f \<in> set (trace (snd (pull E s)))" for f
    using that evs by auto
  ultimately show ?thesis by (auto simp: pull_frame)
qed

theorem sync_pull_failure_witness:
  "fst (pull sim runtime_offline)
     = Inl (new_Error (js ''Git pull failed: Error: Could not read from remote repository.''))
   \<and> fst (sync sim (js ''/tmp/proj'') runtime_offline)
     = Inl (new_Error (js ''Git pull failed: Error: Could not read from remote repository.''))
   \<and> annotations (snd (sync sim (js ''/tmp/proj'') runtime_offline)) (js ''/tmp/proj'') = Some [note_a]
   \<and> fst (pull sim runtime0) = Inr ()
   \<and> sync sim (js ''/tmp/proj'') runtime0 = loadAnnotations sim (js ''/tmp/proj'') (snd (pull sim runtime0))"
proof -
  let ?e = "new_Error (js ''Git pull failed: Error: Could not read from remote repository.'')"
  have h1: "fst (pull sim runtime_offline) = Inl ?e" by code_simp
  have h2: "fst (pull sim runtime0) = Inr ()" by code_simp
  have a: "annotations runtime_offline (js ''/tmp/proj'') = Some [note_a]" by code_simp
  from sync_pull_failure [of sim runtime_offline ?e "js ''/tmp/proj''"] h1
  have "sync sim (js ''/tmp/proj'') runtime_offline = (Inl ?e, snd (pull sim runtime_offline))"
    "annotations (snd (sync sim (js ''/tmp/proj'') runtime_offline)) = annotations runtime_offline"
    by blast+
  moreover from sync_pull_failure [of sim runtime0 _ "js ''/tmp/proj''"] h2
  have "sync sim (js ''/tmp/proj'') runtime0 = loadAnnotations sim (js ''/tmp/proj'') (snd (pull sim runtime0))"
    by simp
  ultimately show ?thesis using h1 h2 a by simp
qed

section \<open>Committing\<close>

lemma commits_append [simp]: "commits (xs @ ys) = commits xs + commits ys"
  by (induction xs) (simp_all split: event.splits)

lemma saveAnnotations_Inr:
  assumes "saveAnnotations E p s = (Inr u, s')"
  shows "\<exists>repo. repoPath s = Some repo \<and> repo \<noteq> []
          \<and> trace s' = trace s @ [Mkdir (path_dirname E (getAnnotationFilePath E p repo)),
               WriteFile (getAnnotationFilePath E p repo)
                 (JSON_stringify E \<lparr>annotations' = getAllAnnotations p s, version = js ''1.0''\<rparr>)]"
  using assms
  by (auto simp: saveAnnotations_def getRepoPath_def Let_def
      split: option.splits if_splits prod.splits sum.splits dest!: perform_trace_eq)

lemma saveAnnotations_ok:
  assumes "repoPath s = Some repo" "repo \<noteq> []"
    and "fs_mkdir E (path_dirname E (getAnnotationFilePath E p repo)) (world s) = (Inr (), w1)"
    and "fs_writeFile E (getAnnotationFilePath E p repo)
           (JSON_stringify E \<lparr>annotations' = getAllAnnotations p s, version = js ''1.0''\<rparr>) w1 = (Inr (), w2)"
  shows "saveAnnotations E p s
         = (Inr (), s\<lparr>world := w2,
              trace := trace s @ [Mkdir (path_dirname E (getAnnotationFilePath E p repo)),
                WriteFile (getAnnotationFilePath E p repo)
                  (JSON_stringify E \<lparr>annotations' = getAllAnnotations p s, version = js ''1.0''\<rparr>)]\<rparr>)"
  using assms by (simp add: saveAnnotations_def getRepoPath_def Let_def perform_def)

lemma commitAndPush_try_trace:
  "\<exists>evs. trace (snd (commitAndPush_try E m s)) = trace s @ evs \<and> commits evs \<le> 1"
  by (auto simp: commitAndPush_try_def perform_def split: prod.splits sum.splits)

lemma commitAndPush_trace:
  "\<exists>evs. trace (snd (commitAndPush E m s)) = trace s @ evs \<and> commits evs \<le> 1"
  using commitAndPush_try_trace [of E m s]
  by (auto simp: commitAndPush_def split: prod.splits sum.splits)

lemma commitAndPush_Inr: "commitAndPush E m s = (Inr u, s') \<Longrightarrow> git s"
  by (auto simp: commitAndPush_def split: if_splits)

lemma commitAndPush_nothing:
  assumes "git s" "git_add E (world s) = (Inr (), w1)" "git_status E w1 = (Inr st, w2)"
    and "staged st = []" "created st = []" "modified st = []"
  shows "commitAndPush E m s = (Inr (), s\<lparr>world := w2, trace := trace s @ [GitAdd, GitStatus]\<rparr>)"
  using assms
  by (simp add: commitAndPush_def commitAndPush_try_def perform_def nothing_to_commit_def)

lemma commitChanges_nothing:
  assumes "repoPath s = Some repo" "repo \<noteq> []" "git s"
    and "fs_mkdir E (path_dirname E (getAnnotationFilePath E p repo)) (world s) = (Inr (), w1)"
    and "fs_writeFile E (getAnnotationFilePath E p repo)
           (JSON_stringify E \<lparr>annotations' = getAllAnnotations p s, version = js ''1.0''\<rparr>) w1 = (Inr (), w2)"
    and "git_add E w2 = (Inr (), w3)" "git_status E w3 = (Inr st, w4)"
    and "staged st = []" "created st = []" "modified st = []"
  shows "commitChanges E p m s
         = (Inr (), s\<lparr>world := w4,
              trace := trace s @ [Mkdir (path_dirname E (getAnnotationFilePath E p repo)),
                WriteFile (getAnnotationFilePath E p repo)
                  (JSON_stringify E \<lparr>annotations' = getAllAnnotations p s, version = js ''1.0''\<rparr>),
                GitAdd, GitStatus]\<rparr>)"
proof -
  let ?dir = "path_dirname E (getAnnotationFilePath E p repo)"
  let ?file = "getAnnotationFilePath E p repo"
  let ?doc = "JSON_stringify E \<lparr>annotations' = getAllAnnotations p s, version = js ''1.0''\<rparr>"
  let ?sb = "s\<lparr>world := w2, trace := trace s @ [Mkdir ?dir, WriteFile ?file ?doc]\<rparr>"
  have save: "saveAnnotations E p s = (Inr (), ?sb)"
    using assms(1,2,4,5) by (rule saveAnnotations_ok)
  have "commitAndPush E m ?sb = (Inr (), ?sb\<lparr>world := w4, trace := trace ?sb @ [GitAdd, GitStatus]\<rparr>)"
    using assms(3,6-10) by (intro commitAndPush_nothing) simp_all
  with save show ?thesis by (simp add: commitChanges_def)
qed

lemma saveAnnotations_Inr_world:
  assumes "saveAnnotations E p s = (Inr u, s')"
  shows "\<exists>repo w1 w2. repoPath s = Some repo \<and> repo \<noteq> []
          \<and> fs_mkdir E (path_dirname E (getAnnotationFilePath E p repo)) (world s) = (Inr (), w1)
          \<and> fs_writeFile E (getAnnotationFilePath E p repo)
               (JSON_stringify E \<lparr>annotations' = getAllAnnotations p s, version = js ''1.0''\<rparr>) w1 = (Inr (), w2)
          \<and> s' = s\<lparr>world := w2,
                trace := trace s @ [Mkdir (path_dirname E (getAnnotationFilePath E p repo)),
                  WriteFile (getAnnotationFilePath E p repo)
                    (JSON_stringify E \<lparr>annotations' = getAllAnnotations p s, version = js ''1.0''\<rparr>)]\<rparr>"
  using assms
  by (auto simp: saveAnnotations_def getRepoPath_def Let_def perform_def
      split: option.splits if_splits prod.splits sum.splits)

lemma saveAnnotations_commits:
  "commits (trace (snd (saveAnnotations E p s))) = commits (trace s)"
  by (auto simp: saveAnnotations_def getRepoPath_def Let_def perform_def
      split: option.splits if_splits prod.splits sum.splits)

lemma commitAndPush_Inr_world:
  assumes "commitAndPush E m s = (Inr u, s')"
  shows "\<exists>w1 st w2. git s \<and> git_add E (world s) = (Inr (), w1) \<and> git_status E w1 = (Inr st, w2)
          \<and> (if nothing_to_commit st
              then s' = s\<lparr>world := w2, trace := trace s @ [GitAdd, GitStatus]\<rparr>
              else \<exists>w3 rs w4. git_commit E m w2 = (Inr (), w3) \<and> git_getRemotes E w3 = (Inr rs, w4)
                     \<and> (if length rs > 0
                         then \<exists>w5. git_push E w4 = (Inr (), w5)
                                \<and> s' = s\<lparr>world := w5,
                                      trace := trace s @ [GitAdd, GitStatus, GitCommit m, GitGetRemotes, GitPush]\<rparr>
                         else s' = s\<lparr>world := w4,
                                  trace := trace s @ [GitAdd, GitStatus, GitCommit m, GitGetRemotes]\<rparr>))"
proof -
  have g: "git s"
    using assms by (rule commitAndPush_Inr)
  obtain r1 w1 where a: "git_add E (world s) = (r1, w1)"
    by (cases "git_add E (world s)")
  obtain r2 w2 where b: "git_status E w1 = (r2, w2)"
    by (cases "git_status E w1")
  have r1: "r1 = Inr ()"
    using assms g a
    by (auto simp: commitAndPush_def commitAndPush_try_def perform_def split: sum.splits prod.splits)
  obtain st where r2: "r2 = Inr st"
    using assms g a b r1
    by (cases r2) (auto simp: commitAndPush_def commitAndPush_try_def perform_def split: sum.splits prod.splits)
  note ab = a [unfolded r1] b [unfolded r2]
  show ?thesis
  proof (cases "nothing_to_commit st")
    case True
    then have "s' = s\<lparr>world := w2, trace := trace s @ [GitAdd, GitStatus]\<rparr>"
      using assms g ab by (simp add: commitAndPush_def commitAndPush_try_def perform_def)
    with g ab True show ?thesis by auto
  next
    case False
    obtain r3 w3 where c: "git_commit E m w2 = (r3, w3)"
      by (cases "git_commit E m w2")
    obtain r4 w4 where d: "git_getRemotes E w3 = (r4, w4)"
      by (cases "git_getRemotes E w3")
    have r3: "r3 = Inr ()"
      using assms g ab False c
      by (auto simp: commitAndPush_def commitAndPush_try_def perform_def split: sum.splits prod.splits)
    obtain rs where r4: "r4 = Inr rs"
      using assms g ab False c d r3
      by (cases r4) (auto simp: commitAndPush_def commitAndPush_try_def perform_def split: sum.splits prod.splits)
    note cd = c [unfolded r3] d [unfolded r4]
    show ?thesis
    proof (cases "length rs > 0")
      case True
      obtain r5 w5 where e: "git_push E w4 = (r5, w5)"
        by (cases "git_push E w4")
      have "r5 = Inr ()"
        and "s' = s\<lparr>world := w5, trace := trace s @ [GitAdd, GitStatus, GitCommit m, GitGetRemotes, GitPush]\<rparr>"
        using assms g ab False cd True e
        by (auto simp: commitAndPush_def commitAndPush_try_def perform_def split: sum.splits prod.splits)
      with g ab False cd True e show ?thesis by auto
    next
      case no: False
      then have "s' = s\<lparr>world := w4, trace := trace s @ [GitAdd, GitStatus, GitCommit m, GitGetRemotes]\<rparr>"
        using assms g ab False cd
        by (simp add: commitAndPush_def commitAndPush_try_def perform_def)
      with g ab False cd no show ?thesis by auto
    qed
  qed
qed

lemma commitAndPush_quiet:
  assumes "quiet E (world s)"
  shows "commits (trace (snd (commitAndPush E m s))) = commits (trace s)"
  using assms
  by (auto simp: commitAndPush_def commitAndPush_try_def perform_def quiet_def
      split: if_splits prod.splits sum.splits)


lemma git_fs_laws_written:
  "git_fs_laws E \<Longrightarrow> fs_writeFile E f c w = (Inr (), w') \<Longrightarrow> has_content E f c w'"
  unfolding git_fs_laws_def by meson

lemma git_fs_laws_content:
  assumes "git_fs_laws E" "has_content E f c w"
  shows "fs_mkdir E d w = (r1, w') \<Longrightarrow> has_content E f c w'"
    and "git_add E w = (r2, w') \<Longrightarrow> has_content E f c w'"
    and "git_status E w = (r3, w') \<Longrightarrow> has_content E f c w'"
    and "git_commit E m w = (r4, w') \<Longrightarrow> has_content E f c w'"
    and "git_getRemotes E w = (r5, w') \<Longrightarrow> has_content E f c w'"
    and "git_push E w = (r6, w') \<Longrightarrow> has_content E f c w'"
proof -
  have *: "has_content E f c (snd (fs_mkdir E d w))" "has_content E f c (snd (git_add E w))"
    "has_content E f c (snd (git_status E w))" "has_content E f c (snd (git_commit E m w))"
    "has_content E f c (snd (git_getRemotes E w))" "has_content E f c (snd (git_push E w))"
    using assms unfolding git_fs_laws_def by simp_all
  show "fs_mkdir E d w = (r1, w') \<Longrightarrow> has_content E f c w'" using *(1) by simp
  show "git_add E w = (r2, w') \<Longrightarrow> has_content E f c w'" using *(2) by simp
  show "git_status E w = (r3, w') \<Longrightarrow> has_content E f c w'" using *(3) by simp
  show "git_commit E m w = (r4, w') \<Longrightarrow> has_content E f c w'" using *(4) by simp
  show "git_getRemotes E w = (r5, w') \<Longrightarrow> has_content E f c w'" using *(5) by simp
  show "git_push E w = (r6, w') \<Longrightarrow> has_content E f c w'" using *(6) by simp
qed

lemma git_fs_laws_quiet:
  assumes "git_fs_laws E" "quiet E w"
  shows "fs_mkdir E d w = (r1, w') \<Longrightarrow> quiet E w'"
    and "git_getRemotes E w = (r2, w') \<Longrightarrow> quiet E w'"
    and "git_push E w = (r3, w') \<Longrightarrow> quiet E w'"
proof -
  have *: "quiet E (snd (fs_mkdir E d w))" "quiet E (snd (git_getRemotes E w))"
    "quiet E (snd (git_push E w))"
    using assms unfolding git_fs_laws_def by simp_all
  show "fs_mkdir E d w = (r1, w') \<Longrightarrow> quiet E w'" using *(1) by simp
  show "git_getRemotes E w = (r2, w') \<Longrightarrow> quiet E w'" using *(2) by simp
  show "git_push E w = (r3, w') \<Longrightarrow> quiet E w'" using *(3) by simp
qed

lemma git_fs_laws_rewrite:
  "git_fs_laws E \<Longrightarrow> quiet E w \<Longrightarrow> has_content E f c w
     \<Longrightarrow> fs_writeFile E f c w = (Inr (), w') \<Longrightarrow> quiet E w'"
  unfolding git_fs_laws_def by meson

lemma git_fs_laws_nothing:
  "git_fs_laws E \<Longrightarrow> git_add E w = (Inr (), w1) \<Longrightarrow> git_status E w1 = (Inr st, w2)
     \<Longrightarrow> nothing_to_commit st \<Longrightarrow> quiet E w2"
  unfolding git_fs_laws_def by meson

lemma git_fs_laws_committed:
  "git_fs_laws E \<Longrightarrow> git_add E w = (Inr (), w1) \<Longrightarrow> git_status E w1 = (Inr st, w2)
     \<Longrightarrow> git_commit E m w2 = (Inr (), w3) \<Longrightarrow> quiet E w3"
  unfolding git_fs_laws_def by meson

lemma commitAndPush_settles:
  assumes laws: "git_fs_laws E" and ok: "commitAndPush E m s = (Inr u, s')"
  shows "\<exists>w1 st w2. git_add E (world s) = (Inr (), w1) \<and> git_status E w1 = (Inr st, w2)
           \<and> commits (trace s') = commits (trace s) + (if nothing_to_commit st then 0 else 1)
           \<and> quiet E (world s')
           \<and> (\<forall>f c. has_content E f c (world s) \<longrightarrow> has_content E f c (world s'))"
proof -
  from commitAndPush_Inr_world [OF ok] obtain w1 st w2 where
    a: "git_add E (world s) = (Inr (), w1)" and b: "git_status E w1 = (Inr st, w2)"
    and rest: "if nothing_to_commit st
              then s' = s\<lparr>world := w2, trace := trace s @ [GitAdd, GitStatus]\<rparr>
              else \<exists>w3 rs w4. git_commit E m w2 = (Inr (), w3) \<and> git_getRemotes E w3 = (Inr rs, w4)
                     \<and> (if length rs > 0
                         then \<exists>w5. git_push E w4 = (Inr (), w5)
                                \<and> s' = s\<lparr>world := w5,
                                      trace := trace s @ [GitAdd, GitStatus, GitCommit m, GitGetRemotes, GitPush]\<rparr>
                         else s' = s\<lparr>world := w4,
                                  trace := trace s @ [GitAdd, GitStatus, GitCommit m, GitGetRemotes]\<rparr>)"
    by blast
  have keep2: "has_content E f c w2" if "has_content E f c (world s)" for f c
    using git_fs_laws_content(3) [OF laws git_fs_laws_content(2) [OF laws that a] b] .
  have "commits (trace s') = commits (trace s) + (if nothing_to_commit st then 0 else 1)
        \<and> quiet E (world s')
        \<and> (\<forall>f c. has_content E f c (world s) \<longrightarrow> has_content E f c (world s'))"
  proof (cases "nothing_to_commit st")
    case True
    with rest have s': "s' = s\<lparr>world := w2, trace := trace s @ [GitAdd, GitStatus]\<rparr>" by simp
    have "quiet E w2" using laws a b True by (rule git_fs_laws_nothing)
    with s' True keep2 show ?thesis by simp
  next
    case False
    with rest obtain w3 rs w4 where c: "git_commit E m w2 = (Inr (), w3)"
      and d: "git_getRemotes E w3 = (Inr rs, w4)"
      and rest': "if length rs > 0
                  then \<exists>w5. git_push E w4 = (Inr (), w5)
                         \<and> s' = s\<lparr>world := w5,
                               trace := trace s @ [GitAdd, GitStatus, GitCommit m, GitGetRemotes, GitPush]\<rparr>
                  else s' = s\<lparr>world := w4,
                           trace := trace s @ [GitAdd, GitStatus, GitCommit m, GitGetRemotes]\<rparr>"
      by auto
    have q3: "quiet E w3" using laws a b c by (rule git_fs_laws_committed)
    have q4: "quiet E w4" using git_fs_laws_quiet(2) [OF laws q3 d] .
    have keep4: "has_content E f c w4" if "has_content E f c (world s)" for f c
      using git_fs_laws_content(5) [OF laws git_fs_laws_content(4) [OF laws keep2 [OF that] c] d] .
    show ?thesis
    proof (cases "length rs > 0")
      case True
      with rest' obtain w5 where e: "git_push E w4 = (Inr (), w5)"
        and s': "s' = s\<lparr>world := w5,
                   trace := trace s @ [GitAdd, GitStatus, GitCommit m, GitGetRemotes, GitPush]\<rparr>"
        by auto
      have q5: "quiet E w5" using git_fs_laws_quiet(3) [OF laws q4 e] .
      have keep5: "has_content E f c w5" if "has_content E f c (world s)" for f c
        using git_fs_laws_content(6) [OF laws keep4 [OF that] e] .
      from s' False q5 keep5 show ?thesis by simp
    next
      case no: False
      with rest' have s': "s' = s\<lparr>world := w4,
                   trace := trace s @ [GitAdd, GitStatus, GitCommit m, GitGetRemotes]\<rparr>"
        by simp
      from s' False q4 keep4 show ?thesis by simp
    qed
  qed
  with a b show ?thesis by blast
qed

lemma saveAnnotations_again:
  assumes laws: "git_fs_laws E" and q: "quiet E (world s)" and repo: "repoPath s = Some repo"
    and c: "has_content E (getAnnotationFilePath E p repo)
              (JSON_stringify E \<lparr>annotations' = getAllAnnotations p s, version = js ''1.0''\<rparr>) (world s)"
    and ok: "saveAnnotations E p s = (Inr u, s')"
  shows "quiet E (world s')"
proof -
  from saveAnnotations_Inr_world [OF ok] repo obtain w1 w2 where
    a: "fs_mkdir E (path_dirname E (getAnnotationFilePath E p repo)) (world s) = (Inr (), w1)"
    and b: "fs_writeFile E (getAnnotationFilePath E p repo)
               (JSON_stringify E \<lparr>annotations' = getAllAnnotations p s, version = js ''1.0''\<rparr>) w1 = (Inr (), w2)"
    and s': "world s' = w2"
    by auto
  have "quiet E w1" using git_fs_laws_quiet(1) [OF laws q a] .
  moreover have "has_content E (getAnnotationFilePath E p repo)
              (JSON_stringify E \<lparr>annotations' = getAllAnnotations p s, version = js ''1.0''\<rparr>) w1"
    using git_fs_laws_content(1) [OF laws c a] .
  ultimately have "quiet E w2" using b git_fs_laws_rewrite [OF laws] by blast
  with s' show ?thesis by simp
qed

lemma commitChanges_first:
  assumes laws: "git_fs_laws E" and ok: "commitChanges E p m s = (Inr u, s1)"
  shows "\<exists>repo w1 w2 w3 st w4. repoPath s = Some repo \<and> repo \<noteq> []
          \<and> fs_mkdir E (path_dirname E (getAnnotationFilePath E p repo)) (world s) = (Inr (), w1)
          \<and> fs_writeFile E (getAnnotationFilePath E p repo)
               (JSON_stringify E \<lparr>annotations' = getAllAnnotations p s, version = js ''1.0''\<rparr>) w1 = (Inr (), w2)
          \<and> git_add E w2 = (Inr (), w3) \<and> git_status E w3 = (Inr st, w4)
          \<and> commits (trace s1) = commits (trace s) + (if nothing_to_commit st then 0 else 1)
          \<and> WriteFile (getAnnotationFilePath E p repo)
               (JSON_stringify E \<lparr>annotations' = getAllAnnotations p s, version = js ''1.0''\<rparr>) \<in> set (trace s1)
          \<and> quiet E (world s1)
          \<and> has_content E (getAnnotationFilePath E p repo)
               (JSON_stringify E \<lparr>annotations' = getAllAnnotations p s, version = js ''1.0''\<rparr>) (world s1)
          \<and> annotations s1 = annotations s \<and> repoPath s1 = repoPath s \<and> git s1"
proof -
  from ok obtain u' sa where save: "saveAnnotations E p s = (Inr u', sa)"
    and push: "commitAndPush E m sa = (Inr u, s1)"
    by (auto simp: commitChanges_def split: prod.splits sum.splits)
  from saveAnnotations_Inr_world [OF save] obtain repo w1 w2 where
    repo: "repoPath s = Some repo" "repo \<noteq> []"
    and a: "fs_mkdir E (path_dirname E (getAnnotationFilePath E p repo)) (world s) = (Inr (), w1)"
    and b: "fs_writeFile E (getAnnotationFilePath E p repo)
               (JSON_stringify E \<lparr>annotations' = getAllAnnotations p s, version = js ''1.0''\<rparr>) w1 = (Inr (), w2)"
    and sa: "sa = s\<lparr>world := w2,
                trace := trace s @ [Mkdir (path_dirname E (getAnnotationFilePath E p repo)),
                  WriteFile (getAnnotationFilePath E p repo)
                    (JSON_stringify E \<lparr>annotations' = getAllAnnotations p s, version = js ''1.0''\<rparr>)]\<rparr>"
    by blast
  let ?file = "getAnnotationFilePath E p repo"
  let ?doc = "JSON_stringify E \<lparr>annotations' = getAllAnnotations p s, version = js ''1.0''\<rparr>"
  have wa: "world sa = w2" and ta: "commits (trace sa) = commits (trace s)"
    and ina: "WriteFile ?file ?doc \<in> set (trace sa)"
    using sa by simp_all
  have ca: "has_content E ?file ?doc (world sa)"
    using git_fs_laws_written [OF laws b] wa by simp
  from commitAndPush_settles [OF laws push] wa obtain w3 st w4 where
    c: "git_add E w2 = (Inr (), w3)" and d: "git_status E w3 = (Inr st, w4)"
    and n: "commits (trace s1) = commits (trace sa) + (if nothing_to_commit st then 0 else 1)"
    and q: "quiet E (world s1)"
    and keep: "\<forall>f c. has_content E f c (world sa) \<longrightarrow> has_content E f c (world s1)"
    by auto
  from commitAndPush_trace [of E m sa] push obtain evs where "trace s1 = trace sa @ evs"
    by auto
  with ina have in1: "WriteFile ?file ?doc \<in> set (trace s1)" by simp
  have fr: "annotations s1 = annotations s" "repoPath s1 = repoPath s" "git s1 = git sa"
    using commitAndPush_frame [of E m sa] push sa by simp_all
  have "git sa" using push by (rule commitAndPush_Inr)
  with fr have g1: "git s1" by simp
  from keep ca have c1: "has_content E ?file ?doc (world s1)" by blast
  from repo a b c d n ta in1 q c1 fr(1,2) g1 show ?thesis by auto
qed

lemma commitChanges_second_no_commit:
  assumes laws: "git_fs_laws E" and ok: "commitChanges E p m s = (Inr u, s1)"
  shows "commits (trace (snd (commitChanges E p m' s1))) = commits (trace s1)"
proof -
  from commitChanges_first [OF laws ok] obtain repo where
    repo: "repoPath s = Some repo"
    and q: "quiet E (world s1)"
    and c: "has_content E (getAnnotationFilePath E p repo)
               (JSON_stringify E \<lparr>annotations' = getAllAnnotations p s, version = js ''1.0''\<rparr>) (world s1)"
    and fr: "annotations s1 = annotations s" "repoPath s1 = repoPath s"
    by blast
  have same: "getAllAnnotations p s1 = getAllAnnotations p s"
    using fr(1) by (simp add: getAllAnnotations_def)
  obtain r sa where save: "saveAnnotations E p s1 = (r, sa)"
    by (cases "saveAnnotations E p s1")
  have ta: "commits (trace sa) = commits (trace s1)"
    using saveAnnotations_commits [of E p s1] save by simp
  show ?thesis
  proof (cases r)
    case (Inl e)
    with save ta show ?thesis by (simp add: commitChanges_def)
  next
    case (Inr u')
    have "quiet E (world sa)"
      using laws q _ _ save [unfolded Inr]
      by (rule saveAnnotations_again [where repo = repo]) (simp_all add: fr repo same c)
    then have "commits (trace (snd (commitAndPush E m' sa))) = commits (trace sa)"
      by (rule commitAndPush_quiet)
    with save Inr ta show ?thesis by (simp add: commitChanges_def)
  qed
qed

lemma commitChanges_second_returns:
  assumes laws: "git_fs_laws E" and ok: "commitChanges E p m s = (Inr u, s1)"
    and repo: "repoPath s = Some repo"
    and a: "fs_mkdir E (path_dirname E (getAnnotationFilePath E p repo)) (world s1) = (Inr (), v1)"
    and b: "fs_writeFile E (getAnnotationFilePath E p repo)
             (JSON_stringify E \<lparr>annotations' = getAllAnnotations p s, version = js ''1.0''\<rparr>) v1 = (Inr (), v2)"
    and c: "git_add E v2 = (Inr (), v3)" and d: "git_status E v3 = (Inr st', v4)"
  shows "nothing_to_commit st'"
    and "commitChanges E p m' s1
         = (Inr (), s1\<lparr>world := v4,
              trace := trace s1 @ [Mkdir (path_dirname E (getAnnotationFilePath E p repo)),
                WriteFile (getAnnotationFilePath E p repo)
                  (JSON_stringify E \<lparr>annotations' = getAllAnnotations p s, version = js ''1.0''\<rparr>),
                GitAdd, GitStatus]\<rparr>)"
proof -
  let ?file = "getAnnotationFilePath E p repo"
  let ?doc = "JSON_stringify E \<lparr>annotations' = getAllAnnotations p s, version = js ''1.0''\<rparr>"
  from commitChanges_first [OF laws ok] repo have
    ne: "repo \<noteq> []" and q: "quiet E (world s1)" and h: "has_content E ?file ?doc (world s1)"
    and fr: "annotations s1 = annotations s" "repoPath s1 = repoPath s" "git s1"
    by auto
  have same: "getAllAnnotations p s1 = getAllAnnotations p s"
    using fr(1) by (simp add: getAllAnnotations_def)
  have "quiet E v1" using git_fs_laws_quiet(1) [OF laws q a] .
  moreover have "has_content E ?file ?doc v1" using git_fs_laws_content(1) [OF laws h a] .
  ultimately have "quiet E v2" using b git_fs_laws_rewrite [OF laws] by blast
  with c d show n: "nothing_to_commit st'" unfolding quiet_def by blast
  then have e: "staged st' = []" "created st' = []" "modified st' = []"
    by (simp_all add: nothing_to_commit_def)
  have r1: "repoPath s1 = Some repo" using fr(2) repo by simp
  have b1: "fs_writeFile E (getAnnotationFilePath E p repo)
             (JSON_stringify E \<lparr>annotations' = getAllAnnotations p s1, version = js ''1.0''\<rparr>) v1 = (Inr (), v2)"
    using b same by simp
  have "commitChanges E p m' s1
         = (Inr (), s1\<lparr>world := v4,
              trace := trace s1 @ [Mkdir (path_dirname E (getAnnotationFilePath E p repo)),
                WriteFile (getAnnotationFilePath E p repo)
                  (JSON_stringify E \<lparr>annotations' = getAllAnnotations p s1, version = js ''1.0''\<rparr>),
                GitAdd, GitStatus]\<rparr>)"
    using r1 ne fr(3) a b1 c d e by (rule commitChanges_nothing)
  then show "commitChanges E p m' s1
         = (Inr (), s1\<lparr>world := v4,
              trace := trace s1 @ [Mkdir (path_dirname E (getAnnotationFilePath E p repo)),
                WriteFile (getAnnotationFilePath E p repo)
                  (JSON_stringify E \<lparr>annotations' = getAllAnnotations p s, version = js ''1.0''\<rparr>),
                GitAdd, GitStatus]\<rparr>)"
    by (simp add: same)
qed

lemma commitAndPush_count:
  assumes "commitAndPush E m s = (Inr u, s')"
  shows "\<exists>w1 st w2. git_add E (world s) = (Inr (), w1) \<and> git_status E w1 = (Inr st, w2)
           \<and> commits (trace s') = commits (trace s) + (if nothing_to_commit st then 0 else 1)"
proof -
  from commitAndPush_Inr_world [OF assms] obtain w1 st w2 where
    a: "git_add E (world s) = (Inr (), w1)" and b: "git_status E w1 = (Inr st, w2)"
    and rest: "if nothing_to_commit st
              then s' = s\<lparr>world := w2, trace := trace s @ [GitAdd, GitStatus]\<rparr>
              else \<exists>w3 rs w4. git_commit E m w2 = (Inr (), w3) \<and> git_getRemotes E w3 = (Inr rs, w4)
                     \<and> (if length rs > 0
                         then \<exists>w5. git_push E w4 = (Inr (), w5)
                                \<and> s' = s\<lparr>world := w5,
                                      trace := trace s @ [GitAdd, GitStatus, GitCommit m, GitGetRemotes, GitPush]\<rparr>
                         else s' = s\<lparr>world := w4,
                                  trace := trace s @ [GitAdd, GitStatus, GitCommit m, GitGetRemotes]\<rparr>)"
    by blast
  have "commits (trace s') = commits (trace s) + (if nothing_to_commit st then 0 else 1)"
  proof (cases "nothing_to_commit st")
    case True
    with rest show ?thesis by simp
  next
    case False
    with rest obtain rs :: "js_string list" where
      "(\<exists>w5. s' = s\<lparr>world := w5,
                  trace := trace s @ [GitAdd, GitStatus, GitCommit m, GitGetRemotes, GitPush]\<rparr>)
       \<or> (\<exists>w4. s' = s\<lparr>world := w4,
                  trace := trace s @ [GitAdd, GitStatus, GitCommit m, GitGetRemotes]\<rparr>)"
      by (auto split: if_splits)
    with False show ?thesis by auto
  qed
  with a b show ?thesis by blast
qed

lemma commitChanges_count:
  assumes ok: "commitChanges E p m s = (Inr u, s1)"
  shows "\<exists>repo w1 w2 w3 st w4. repoPath s = Some repo
          \<and> fs_mkdir E (path_dirname E (getAnnotationFilePath E p repo)) (world s) = (Inr (), w1)
          \<and> fs_writeFile E (getAnnotationFilePath E p repo)
               (JSON_stringify E \<lparr>annotations' = getAllAnnotations p s, version = js ''1.0''\<rparr>) w1 = (Inr (), w2)
          \<and> git_add E w2 = (Inr (), w3) \<and> git_status E w3 = (Inr st, w4)
          \<and> commits (trace s1) = commits (trace s) + (if nothing_to_commit st then 0 else 1)
          \<and> WriteFile (getAnnotationFilePath E p repo)
               (JSON_stringify E \<lparr>annotations' = getAllAnnotations p s, version = js ''1.0''\<rparr>) \<in> set (trace s1)"
proof -
  from ok obtain u' sa where save: "saveAnnotations E p s = (Inr u', sa)"
    and push: "commitAndPush E m sa = (Inr u, s1)"
    by (auto simp: commitChanges_def split: prod.splits sum.splits)
  from saveAnnotations_Inr_world [OF save] obtain repo w1 w2 where
    repo: "repoPath s = Some repo"
    and a: "fs_mkdir E (path_dirname E (getAnnotationFilePath E p repo)) (world s) = (Inr (), w1)"
    and b: "fs_writeFile E (getAnnotationFilePath E p repo)
               (JSON_stringify E \<lparr>annotations' = getAllAnnotations p s, version = js ''1.0''\<rparr>) w1 = (Inr (), w2)"
    and sa: "sa = s\<lparr>world := w2,
                trace := trace s @ [Mkdir (path_dirname E (getAnnotationFilePath E p repo)),
                  WriteFile (getAnnotationFilePath E p repo)
                    (JSON_stringify E \<lparr>annotations' = getAllAnnotations p s, version = js ''1.0''\<rparr>)]\<rparr>"
    by blast
  let ?file = "getAnnotationFilePath E p repo"
  let ?doc = "JSON_stringify E \<lparr>annotations' = getAllAnnotations p s, version = js ''1.0''\<rparr>"
  have wa: "world sa = w2" and ta: "commits (trace sa) = commits (trace s)"
    and ina: "WriteFile ?file ?doc \<in> set (trace sa)"
    using sa by simp_all
  from commitAndPush_count [OF push] wa obtain w3 st w4 where
    c: "git_add E w2 = (Inr (), w3)" and d: "git_status E w3 = (Inr st, w4)"
    and n: "commits (trace s1) = commits (trace sa) + (if nothing_to_commit st then 0 else 1)"
    by auto
  from commitAndPush_trace [of E m sa] push obtain evs where "trace s1 = trace sa @ evs"
    by auto
  with ina have in1: "WriteFile ?file ?doc \<in> set (trace s1)" by simp
  from repo a b c d n ta in1 show ?thesis by auto
qed

lemma commitChanges_annotations:
  "annotations (snd (commitChanges E p m s)) = annotations s"
  using saveAnnotations_frame(1) [of E p s] commitAndPush_frame(1) [of E m "snd (saveAnnotations E p s)"]
  by (auto simp: commitChanges_def split: prod.splits sum.splits)

text \<open>
  The reference environment keeps the laws of git and the file system: they can be met.
\<close>

lemma sim_status_clean:
  "head_tree w = index_tree w \<Longrightarrow> nothing_to_commit (sim_status w)"
  by (auto simp: sim_status_def nothing_to_commit_def Let_def filter_empty_conv map_of_eq_None_iff)

lemma quiet_sim:
  "quiet sim w = nothing_to_commit (sim_status (w\<lparr>index_tree := files w\<rparr>))"
  by (simp add: quiet_def sim_def)

lemma has_content_sim:
  "has_content sim f c w = (f \<notin> set (unreadable w) \<and> map_of (files w) f = Some c)"
  by (auto simp: has_content_def sim_def sim_readFile_def split: option.splits)

lemma sim_calls:
  "fs_mkdir sim = (\<lambda>dir w. (Inr (), w))"
  "fs_writeFile sim = sim_writeFile"
  "git_add sim = (\<lambda>w. (Inr (), w\<lparr>index_tree := files w\<rparr>))"
  "git_status sim = (\<lambda>w. (Inr (sim_status w), w))"
  "git_commit sim = (\<lambda>msg w. (Inr (), w\<lparr>head_tree := index_tree w\<rparr>))"
  "git_getRemotes sim = (\<lambda>w. (Inr (remotes w), w))"
  "git_push sim = sim_remote"
  by (simp_all add: sim_def)

lemma sim_git_fs_laws: "git_fs_laws sim"
  unfolding git_fs_laws_def
proof (intro conjI allI impI)
  fix path content w w'
  assume "fs_writeFile sim path content w = (Inr (), w')"
  then show "has_content sim path content w'"
    by (auto simp: has_content_sim sim_calls sim_writeFile_def AList.update_conv' split: if_splits)
next
  fix path content w w'
  assume "quiet sim w \<and> has_content sim path content w
            \<and> fs_writeFile sim path content w = (Inr (), w')"
  then show "quiet sim w'"
    by (auto simp: has_content_sim quiet_sim sim_calls sim_writeFile_def AList.update_triv split: if_splits)
next
  fix w w1 st w2
  assume "git_add sim w = (Inr (), w1) \<and> git_status sim w1 = (Inr st, w2) \<and> nothing_to_commit st"
  then show "quiet sim w2"
    by (auto simp: quiet_sim sim_calls)
next
  fix w w1 st w2 msg w3
  assume "git_add sim w = (Inr (), w1) \<and> git_status sim w1 = (Inr st, w2)
            \<and> git_commit sim msg w2 = (Inr (), w3)"
  then show "quiet sim w3"
    by (auto simp: quiet_sim sim_calls intro: sim_status_clean)
qed (simp_all add: has_content_sim quiet_sim, simp_all add: sim_calls sim_remote_def)

text \<open>
  Claim C3, amended. Four statements, for every library parameter \<open>E\<close>.

  First, \<open>commitAndPush\<close> alone: with \<open>git\<close> bound, when \<open>git.add\<close> succeeds and \<open>git.status\<close>
  then reports nothing staged and no created, modified or deleted path, it returns normally
  having made these two calls only: no commit.

  Second, the first of two calls of \<open>commitChanges\<close>: when it returns normally, it wrote the
  document of the project, staged, and asked for the status, and it made exactly one commit
  if that status had something to record and none if it had nothing; the collections are as
  before the call.

  Third, the second call, under the laws of git and the file system stated above: after a
  first call that returned normally, a second call for the same project makes no commit,
  however it ends.

  Fourth, under the same laws: when the second call's \<open>mkdir\<close>, \<open>writeFile\<close>, \<open>git.add\<close> and
  \<open>git.status\<close> succeed, that status reports nothing to commit, whatever else it holds, and
  the second call returns normally having made these four calls only; it writes the document
  the first call wrote, to the same path.

  So two calls in a row make one commit when the first had something to record and none
  otherwise.
\<close>

theorem commit_idempotent:
  "(git s \<and> git_add E (world s) = (Inr (), w1) \<and> git_status E w1 = (Inr st, w2)
      \<and> staged st = [] \<and> created st = [] \<and> modified st = [] \<and> deleted st = []
    \<longrightarrow> commitAndPush E m s = (Inr (), s\<lparr>world := w2, trace := trace s @ [GitAdd, GitStatus]\<rparr>))
   \<and> (commitChanges E p m s = (Inr (), s1)
    \<longrightarrow> (\<exists>repo u1 u2 u3 st1 u4.
           repoPath s = Some repo
           \<and> fs_mkdir E (path_dirname E (getAnnotationFilePath E p repo)) (world s) = (Inr (), u1)
           \<and> fs_writeFile E (getAnnotationFilePath E p repo)
                (JSON_stringify E \<lparr>annotations' = getAllAnnotations p s, version = js ''1.0''\<rparr>) u1
              = (Inr (), u2)
           \<and> git_add E u2 = (Inr (), u3) \<and> git_status E u3 = (Inr st1, u4)
           \<and> commits (trace s1) = commits (trace s) + (if nothing_to_commit st1 then 0 else 1)
           \<and> WriteFile (getAnnotationFilePath E p repo)
                (JSON_stringify E \<lparr>annotations' = getAllAnnotations p s, version = js ''1.0''\<rparr>)
               \<in> set (trace s1))
        \<and> annotations s1 = annotations s)
   \<and> (git_fs_laws E \<and> commitChanges E p m s = (Inr (), s1)
    \<longrightarrow> commits (trace (snd (commitChanges E p m' s1))) = commits (trace s1))
   \<and> (git_fs_laws E \<and> commitChanges E p m s = (Inr (), s1)
      \<and> repoPath s = Some repo
      \<and> fs_mkdir E (path_dirname E (getAnnotationFilePath E p repo)) (world s1) = (Inr (), v1)
      \<and> fs_writeFile E (getAnnotationFilePath E p repo)
           (JSON_stringify E \<lparr>annotations' = getAllAnnotations p s, version = js ''1.0''\<rparr>) v1 = (Inr (), v2)
      \<and> git_add E v2 = (Inr (), v3) \<and> git_status E v3 = (Inr st', v4)
    \<longrightarrow> nothing_to_commit st'
        \<and> commitChanges E p m' s1
          = (Inr (), s1\<lparr>world := v4,
               trace := trace s1 @ [Mkdir (path_dirname E (getAnnotationFilePath E p repo)),
                 WriteFile (getAnnotationFilePath E p repo)
                   (JSON_stringify E \<lparr>annotations' = getAllAnnotations p s, version = js ''1.0''\<rparr>),
                 GitAdd, GitStatus]\<rparr>))"
    (is "?A \<and> (?H1 \<longrightarrow> ?B) \<and> (?H2 \<longrightarrow> ?C) \<and> (?H3 \<longrightarrow> ?D)")
proof -
  have A: ?A by (auto intro: commitAndPush_nothing)
  have B: ?B if H: ?H1
  proof -
    have "annotations s1 = annotations s"
      using commitChanges_annotations [of E p m s] H by simp
    with commitChanges_count [OF H] show ?B by blast
  qed
  have C: ?C if H: ?H2
    using H by (blast intro: commitChanges_second_no_commit)
  have D: ?D if H: ?H3
    using H by (blast intro: commitChanges_second_returns)
  show ?thesis
  proof (intro conjI)
    show ?A by (rule A)
    show "?H1 \<longrightarrow> ?B" using B by (rule impI)
    show "?H2 \<longrightarrow> ?C" using C by (rule impI)
    show "?H3 \<longrightarrow> ?D" using D by (rule impI)
  qed
qed

theorem commit_idempotent_witness:
  "git_fs_laws sim
   \<and> fst (commitAndPush sim (js ''Add'') runtime0) = Inr ()
   \<and> commits (trace (snd (commitAndPush sim (js ''Add'') runtime0))) = 0
   \<and> fst (commitChanges sim (js ''/tmp/proj'') (js ''Add'') runtime0) = Inr ()
   \<and> commits (trace (snd (commitChanges sim (js ''/tmp/proj'') (js ''Add'') runtime0))) = 1
   \<and> fst (commitChanges sim (js ''/tmp/proj'') (js ''Again'')
             (snd (commitChanges sim (js ''/tmp/proj'') (js ''Add'') runtime0))) = Inr ()
   \<and> commits (trace (snd (commitChanges sim (js ''/tmp/proj'') (js ''Again'')
             (snd (commitChanges sim (js ''/tmp/proj'') (js ''Add'') runtime0))))) = 1"
proof -
  let ?p = "js ''/tmp/proj''"
  let ?repo = "js ''/repo''"
  let ?s1 = "snd (commitChanges sim ?p (js ''Add'') runtime0)"
  let ?file = "getAnnotationFilePath sim ?p ?repo"
  let ?doc = "JSON_stringify sim \<lparr>annotations' = getAllAnnotations ?p runtime0, version = js ''1.0''\<rparr>"
  let ?W = world_committed
  let ?clean = "\<lparr>not_added = [], conflicted = [], created = [], deleted = [], modified = [], staged = []\<rparr>"
  let ?written = "world0\<lparr>files := [(annotations_json, js ''1.0 id-a=fix this'')]\<rparr>"
  let ?added = "world0\<lparr>files := [(annotations_json, js ''1.0 id-a=fix this'')],
                  index_tree := [(annotations_json, js ''1.0 id-a=fix this'')]\<rparr>"
  let ?new = "\<lparr>not_added = [], conflicted = [], created = [annotations_json], deleted = [],
               modified = [], staged = [annotations_json]\<rparr>"
  have laws: "git_fs_laws sim" by (rule sim_git_fs_laws)
  have a: "git runtime0" "git_add sim (world runtime0) = (Inr (), world0)"
    "git_status sim world0 = (Inr ?clean, world0)"
    by code_simp+
  have first: "fst (commitChanges sim ?p (js ''Add'') runtime0) = Inr ()" by code_simp
  then have b1: "commitChanges sim ?p (js ''Add'') runtime0 = (Inr (), ?s1)"
    by (simp add: prod_eq_iff)
  have t0: "commits (trace runtime0) = 0" by (simp add: runtime0_def)
  have b3: "repoPath runtime0 = Some ?repo" by (simp add: runtime0_def)
  have f: "fs_mkdir sim (path_dirname sim ?file) (world runtime0) = (Inr (), world0)"
    "fs_writeFile sim ?file ?doc world0 = (Inr (), ?written)"
    "git_add sim ?written = (Inr (), ?added)"
    "git_status sim ?added = (Inr ?new, ?added)"
    "\<not> nothing_to_commit ?new"
    by code_simp+
  have b4: "fs_mkdir sim (path_dirname sim ?file) (world ?s1) = (Inr (), ?W)"
    "fs_writeFile sim ?file ?doc ?W = (Inr (), ?W)"
    "git_add sim ?W = (Inr (), ?W)"
    "git_status sim ?W = (Inr ?clean, ?W)"
    by code_simp+
  note inst = commit_idempotent [where s = runtime0 and E = sim and ?w1.0 = world0 and st = ?clean
      and ?w2.0 = world0 and m = "js ''Add''" and p = ?p and ?s1.0 = ?s1 and repo = ?repo
      and ?v1.0 = ?W and ?v2.0 = ?W and ?v3.0 = ?W and st' = ?clean and ?v4.0 = ?W
      and m' = "js ''Again''"]
  from inst a have A: "commitAndPush sim (js ''Add'') runtime0
      = (Inr (), runtime0\<lparr>world := world0, trace := trace runtime0 @ [GitAdd, GitStatus]\<rparr>)"
    by simp
  from inst b1 obtain repo u1 u2 u3 st1 u4 where
    e: "repoPath runtime0 = Some repo"
      "fs_mkdir sim (path_dirname sim (getAnnotationFilePath sim ?p repo)) (world runtime0) = (Inr (), u1)"
      "fs_writeFile sim (getAnnotationFilePath sim ?p repo) ?doc u1 = (Inr (), u2)"
      "git_add sim u2 = (Inr (), u3)" "git_status sim u3 = (Inr st1, u4)"
      "commits (trace ?s1) = commits (trace runtime0) + (if nothing_to_commit st1 then 0 else 1)"
    by blast
  from e(1) b3 have "repo = ?repo" by simp
  with e(2) f(1) have "u1 = world0" by simp
  with e(3) f(2) \<open>repo = ?repo\<close> have "u2 = ?written" by simp
  with e(4) f(3) have "u3 = ?added" by simp
  with e(5) f(4) have "st1 = ?new" by simp
  with e(6) f(5) t0 have once: "commits (trace ?s1) = 1" by simp
  from inst laws b1 have C: "commits (trace (snd (commitChanges sim ?p (js ''Again'') ?s1))) = commits (trace ?s1)"
    by blast
  from inst laws b1 b3 b4 have D: "commitChanges sim ?p (js ''Again'') ?s1
      = (Inr (), ?s1\<lparr>world := ?W,
           trace := trace ?s1 @ [Mkdir (path_dirname sim ?file), WriteFile ?file ?doc, GitAdd, GitStatus]\<rparr>)"
    by blast
  from laws A C D first once t0 show ?thesis by simp
qed

text \<open>
  The claim as stated fails where there is nothing to record before the first call: with
  the project's document on disk and in the last commit, two calls of \<open>commitChanges\<close> in a
  row both return normally and no commit is made.
\<close>

theorem commit_twice_none_counterexample:
  "fst (commitChanges sim (js ''/tmp/proj'') (js ''Add'') runtime_committed) = Inr ()
   \<and> fst (commitChanges sim (js ''/tmp/proj'') (js ''Again'')
             (snd (commitChanges sim (js ''/tmp/proj'') (js ''Add'') runtime_committed))) = Inr ()
   \<and> trace (snd (commitChanges sim (js ''/tmp/proj'') (js ''Again'')
             (snd (commitChanges sim (js ''/tmp/proj'') (js ''Add'') runtime_committed))))
       = [Mkdir (js ''/repo/proj_0000000000000000''),
          WriteFile annotations_json (js ''1.0 id-a=fix this''), GitAdd, GitStatus,
          Mkdir (js ''/repo/proj_0000000000000000''),
          WriteFile annotations_json (js ''1.0 id-a=fix this''), GitAdd, GitStatus]
   \<and> commits (trace (snd (commitChanges sim (js ''/tmp/proj'') (js ''Again'')
             (snd (commitChanges sim (js ''/tmp/proj'') (js ''Add'') runtime_committed))))) = 0"
proof -
  let ?p = "js ''/tmp/proj''"
  let ?repo = "js ''/repo''"
  let ?dir = "path_dirname sim (getAnnotationFilePath sim ?p ?repo)"
  let ?file = "getAnnotationFilePath sim ?p ?repo"
  let ?doc = "JSON_stringify sim \<lparr>annotations' = [note_a], version = js ''1.0''\<rparr>"
  let ?clean = "\<lparr>not_added = [], conflicted = [], created = [], deleted = [], modified = [], staged = []\<rparr>"
  let ?s1 = "runtime_committed\<lparr>world := world_committed,
               trace := trace runtime_committed @ [Mkdir ?dir, WriteFile ?file ?doc, GitAdd, GitStatus]\<rparr>"
  have st: "repoPath runtime_committed = Some ?repo" "?repo \<noteq> []" "git runtime_committed"
    "world runtime_committed = world_committed" "trace runtime_committed = []"
    "getAllAnnotations ?p runtime_committed = [note_a]"
    by code_simp+
  have env: "fs_mkdir sim ?dir world_committed = (Inr (), world_committed)"
    "fs_writeFile sim ?file ?doc world_committed = (Inr (), world_committed)"
    "git_add sim world_committed = (Inr (), world_committed)"
    "git_status sim world_committed = (Inr ?clean, world_committed)"
    by code_simp+
  have lit: "?dir = js ''/repo/proj_0000000000000000''" "?file = annotations_json"
    "?doc = js ''1.0 id-a=fix this''"
    "path_dirname sim annotations_json = js ''/repo/proj_0000000000000000''"
    by code_simp+
  have c1: "commitChanges sim ?p (js ''Add'') runtime_committed = (Inr (), ?s1)"
    using st env
    by (intro commitChanges_nothing [where repo = ?repo and st = ?clean and ?w1.0 = world_committed
          and ?w2.0 = world_committed and ?w3.0 = world_committed, THEN trans]) simp_all
  have "getAllAnnotations ?p ?s1 = [note_a]"
    using st(6) by (simp add: getAllAnnotations_def)
  then have c2: "commitChanges sim ?p (js ''Again'') ?s1
      = (Inr (), ?s1\<lparr>world := world_committed,
              trace := trace ?s1 @ [Mkdir ?dir, WriteFile ?file ?doc, GitAdd, GitStatus]\<rparr>)"
    using st env
    by (intro commitChanges_nothing [where repo = ?repo and st = ?clean and ?w1.0 = world_committed
          and ?w2.0 = world_committed and ?w3.0 = world_committed, THEN trans]) simp_all
  show ?thesis
    apply (simp only: c1 fst_conv snd_conv)
    apply (simp only: c2 fst_conv snd_conv)
    apply (simp add: st(5) lit)
    done
qed

end
